theory Spec2Isabelle
  imports
    Main
    "HOL-Library.Word"
    "HOL-Library.Signed_Division"
    "HOL-Library.Sublist"
begin

section \<open>Go integers\<close>

text \<open>
  Go's \<open>int\<close> on the 64-bit targets the package is built for: a 64-bit two's complement
  word. \<open>+\<close> and \<open>*\<close> wrap around; \<open>/\<close> and \<open>%\<close> truncate towards zero (the
  quotient of the signed values, the remainder with the sign of the dividend).
\<close>

type_synonym go_int = "64 word"

definition go_quo :: "go_int \<Rightarrow> go_int \<Rightarrow> go_int" where
  "go_quo a b = word_of_int (sint a sdiv sint b)"

definition go_rem :: "go_int \<Rightarrow> go_int \<Rightarrow> go_int" where
  "go_rem a b = word_of_int (sint a smod sint b)"

text \<open>\<open>%d\<close> of an \<open>int\<close>: the decimal digits of the signed value.\<close>

definition digit :: "nat \<Rightarrow> char" where
  "digit n = ''0123456789'' ! n"

function itoa_nat :: "nat \<Rightarrow> string" where
  "itoa_nat n = (if n < 10 then [digit n] else itoa_nat (n div 10) @ [digit (n mod 10)])"
  by pat_completeness auto
termination
  by (relation "measure (\<lambda>n. n)") auto

declare itoa_nat.simps [simp del]

definition fmt_d :: "go_int \<Rightarrow> string" where
  "fmt_d i = (if sint i < 0 then ''-'' @ itoa_nat (nat (- sint i)) else itoa_nat (nat (sint i)))"

section \<open>Package errorx: error codes\<close>

definition CCBadRequest :: go_int where "CCBadRequest = 400"
definition CCUnauthorized :: go_int where "CCUnauthorized = 401"
definition CCForbidden :: go_int where "CCForbidden = 403"
definition CCNotFound :: go_int where "CCNotFound = 404"
definition CCInternalServer :: go_int where "CCInternalServer = 500"
definition CCNotImplemented :: go_int where "CCNotImplemented = 501"
definition CCUnknown :: go_int where "CCUnknown = 900"

text \<open>
  An \<open>*ErrCode\<close> is a pointer, and the package compares it as one. The model keeps a
  handle as the pointed-to fields together with \<open>addr\<close>, the identity of the allocation
  that \<open>NewErrCode\<close> made; the nil pointer is \<open>None\<close>. Two handles are the same pointer
  exactly when they are equal.
\<close>

record ErrCode =
  addr :: nat
  code :: go_int
  message :: string

record CodeCombiner =
  Combine :: "go_int \<Rightarrow> go_int \<Rightarrow> go_int \<Rightarrow> go_int"
  Separate :: "go_int \<Rightarrow> go_int \<times> go_int \<times> go_int"

definition codeCombiner323_Combine :: "go_int \<Rightarrow> go_int \<Rightarrow> go_int \<Rightarrow> go_int" where
  "codeCombiner323_Combine categoryCode platformCode specificCode =
     categoryCode * 100000 + platformCode * 1000 + specificCode"

definition codeCombiner323_Separate :: "go_int \<Rightarrow> go_int \<times> go_int \<times> go_int" where
  "codeCombiner323_Separate c =
     (go_quo c 100000, go_rem (go_quo c 1000) 100, go_rem c 1000)"

definition codeCombiner323 :: CodeCombiner where
  "codeCombiner323 =
     \<lparr>Combine = codeCombiner323_Combine, Separate = codeCombiner323_Separate\<rparr>"

text \<open>
  The package-level variables: the active combiner, and the allocator that gives every
  \<open>&ErrCode{...}\<close> its own address.
\<close>

record globals =
  codeCombiner :: CodeCombiner
  next_addr :: nat

definition init_globals :: globals where
  "init_globals = \<lparr>codeCombiner = codeCombiner323, next_addr = 0\<rparr>"

definition SetCodeCombiner :: "CodeCombiner \<Rightarrow> globals \<Rightarrow> globals" where
  "SetCodeCombiner combiner g = g\<lparr>codeCombiner := combiner\<rparr>"

definition SeparateCode :: "globals \<Rightarrow> go_int \<Rightarrow> go_int \<times> go_int \<times> go_int" where
  "SeparateCode g c = Separate (codeCombiner g) c"

definition NewErrCode ::
  "globals \<Rightarrow> go_int \<Rightarrow> go_int \<Rightarrow> go_int \<Rightarrow> string \<Rightarrow> ErrCode \<times> globals" where
  "NewErrCode g categoryCode platformCode specificCode msg =
     (\<lparr>addr = next_addr g,
       code = Combine (codeCombiner g) categoryCode platformCode specificCode,
       message = msg\<rparr>,
      g\<lparr>next_addr := Suc (next_addr g)\<rparr>)"

section \<open>Errors\<close>

text \<open>
  The \<open>error\<close> values the package meets, with nil as \<open>None\<close> of \<open>error option\<close>:
  \<^item> \<open>Fundamental\<close>, \<open>WithStack\<close>, \<open>WithMessage\<close>: the three error types of
    \<open>github.com/pkg/errors\<close>, made by \<open>errors.New\<close>, \<open>errors.WithStack\<close> and
    \<open>errors.WithMessage\<close>/\<open>WithMessagef\<close>. The first two hold the stack trace captured
    when they were made and have the method \<open>StackTrace\<close>;
  \<^item> \<open>CodeError\<close>: the package's \<open>*codeError\<close>, its embedded \<open>error\<close> (the cause, which
    may be nil) and its embedded \<open>*ErrCode\<close> (which may be nil);
  \<^item> \<open>Foreign\<close>: an error of another package (\<open>errors.New\<close> and \<open>fmt.Errorf\<close> of the
    standard library, the errors of \<open>encoding/json\<close>): its \<open>Error()\<close> text and what its
    \<open>Unwrap\<close> returns. It has no stack trace and no \<open>Format\<close> method.
  A stack trace is the list of its frames, each as \<open>%+v\<close> prints it.
\<close>

type_synonym StackTrace = "string list"

datatype error =
    Fundamental string StackTrace
  | WithStack error StackTrace
  | WithMessage error string
  | CodeError "error option" "ErrCode option"
  | Foreign string "error option"

text \<open>The fields of a \<open>*codeError\<close>: the embedded \<open>error\<close> and the embedded \<open>*ErrCode\<close>.\<close>

type_synonym codeError = "error option \<times> ErrCode option"

text \<open>
  A panic that nothing recovers ends the process. The only one the modelled code can
  raise by itself is the read of a field through a nil \<open>*ErrCode\<close>.
\<close>

datatype go_panic = NilPointerDereference

text \<open>A value of type \<open>interface{}\<close>: a string, or a value of any other dynamic type.\<close>

datatype any = AnyString string | AnyOther string

subsection \<open>Methods of \<open>*ErrCode\<close> and \<open>*codeError\<close>\<close>

definition GetErrCode :: "ErrCode option \<Rightarrow> ErrCode option" where
  "GetErrCode c = c"

definition GetCode :: "ErrCode option \<Rightarrow> go_panic + go_int" where
  "GetCode c = (case c of None \<Rightarrow> Inl NilPointerDereference | Some ec \<Rightarrow> Inr (code ec))"

definition GetMessage :: "ErrCode option \<Rightarrow> go_panic + string" where
  "GetMessage c = (case c of None \<Rightarrow> Inl NilPointerDereference | Some ec \<Rightarrow> Inr (message ec))"

definition IsErrCode :: "ErrCode option \<Rightarrow> ErrCode option \<Rightarrow> bool" where
  "IsErrCode c ec = (c = ec)"

definition codeError_Error :: "codeError \<Rightarrow> go_panic + string" where
  "codeError_Error e =
     (case GetCode (snd e) of
        Inl p \<Rightarrow> Inl p
      | Inr c \<Rightarrow> (case GetMessage (snd e) of
                   Inl p \<Rightarrow> Inl p
                 | Inr m \<Rightarrow> Inr (fmt_d c @ '': '' @ m)))"

definition Cause :: "codeError \<Rightarrow> error option" where
  "Cause e = fst e"

text \<open>
  \<open>Error()\<close> of every error type: \<open>fundamental\<close> returns its message, \<open>withStack\<close> the
  text of the error it wraps, \<open>withMessage\<close> its message, a colon and the text of its
  cause.
\<close>

fun Error :: "error \<Rightarrow> go_panic + string" where
  "Error (Fundamental msg st) = Inr msg"
| "Error (WithStack e st) = Error e"
| "Error (WithMessage e msg) =
     (case Error e of Inl p \<Rightarrow> Inl p | Inr s \<Rightarrow> Inr (msg @ '': '' @ s))"
| "Error (CodeError cause c) = codeError_Error (cause, c)"
| "Error (Foreign msg cause) = Inr msg"

text \<open>\<open>errors.Unwrap\<close>: the result of the \<open>Unwrap\<close> method, nil for a type without one.\<close>

fun Unwrap :: "error \<Rightarrow> error option" where
  "Unwrap (Fundamental msg st) = None"
| "Unwrap (WithStack e st) = Some e"
| "Unwrap (WithMessage e msg) = Some e"
| "Unwrap (CodeError cause c) = cause"
| "Unwrap (Foreign msg cause) = cause"

text \<open>The type assertion \<open>err.(stackTracer)\<close>: the type has the method \<open>StackTrace\<close>.\<close>

fun stackTracer :: "error \<Rightarrow> bool" where
  "stackTracer (Fundamental msg st) = True"
| "stackTracer (WithStack e st) = True"
| "stackTracer (WithMessage e msg) = False"
| "stackTracer (CodeError cause c) = False"
| "stackTracer (Foreign msg cause) = False"

function hasStack :: "error option \<Rightarrow> bool" where
  "hasStack None = False"
| "hasStack (Some err) = (if stackTracer err then True else hasStack (Unwrap err))"
  by pat_completeness auto
termination
proof (relation "measure (\<lambda>err. case err of None \<Rightarrow> 0 | Some e \<Rightarrow> Suc (size e))")
  show "wf (measure (\<lambda>err. case err of None \<Rightarrow> 0 | Some e \<Rightarrow> Suc (size e)))"
    by simp
next
  fix err :: error
  assume "\<not> stackTracer err"
  show "(Unwrap err, Some err)
        \<in> measure (\<lambda>err. case err of None \<Rightarrow> 0 | Some e \<Rightarrow> Suc (size e))"
    by (cases err) (auto split: option.splits)
qed

text \<open>
  \<open>errors.As\<close> with a \<open>**codeError\<close> target: the first \<open>*codeError\<close> on the chain of
  \<open>Unwrap\<close>.
\<close>

function AsCodeError :: "error option \<Rightarrow> codeError option" where
  "AsCodeError None = None"
| "AsCodeError (Some err) =
     (case err of CodeError cause c \<Rightarrow> Some (cause, c) | _ \<Rightarrow> AsCodeError (Unwrap err))"
  by pat_completeness auto
termination
proof (relation "measure (\<lambda>err. case err of None \<Rightarrow> 0 | Some e \<Rightarrow> Suc (size e))")
  show "wf (measure (\<lambda>err. case err of None \<Rightarrow> 0 | Some e \<Rightarrow> Suc (size e)))"
    by simp
qed (auto split: option.splits)

definition IsCodeError :: "error option \<Rightarrow> ErrCode option list \<Rightarrow> bool" where
  "IsCodeError err c =
     (case AsCodeError err of
        None \<Rightarrow> False
      | Some ce \<Rightarrow> (case c of
                     [] \<Rightarrow> True
                   | [c0] \<Rightarrow> IsErrCode (snd ce) c0
                   | _ \<Rightarrow> False))"

fun TakeCodePriority ::
  "(globals \<Rightarrow> ErrCode option \<times> globals) list \<Rightarrow> globals \<Rightarrow> ErrCode option \<times> globals" where
  "TakeCodePriority [] g = (None, g)"
| "TakeCodePriority (fn # fns) g =
     (case fn g of
        (Some e, g') \<Rightarrow> (Some e, g')
      | (None, g') \<Rightarrow> TakeCodePriority fns g')"

text \<open>
  \<open>newCodeErrorInternal\<close>. \<open>st\<close> is the stack trace that \<open>errors.WithStack\<close> captures
  when it is called here.
\<close>

definition newCodeErrorInternal ::
  "ErrCode option \<Rightarrow> error option list \<Rightarrow> StackTrace \<Rightarrow> error" where
  "newCodeErrorInternal c err st =
     (let e = (case err of [] \<Rightarrow> None | e0 # _ \<Rightarrow> e0);
          ce = CodeError e c
      in if hasStack e then ce else WithStack ce st)"

text \<open>
  \<open>WithCode\<close>. \<open>sprintf\<close> is \<open>fmt.Sprintf\<close>, which \<open>errors.WithMessagef\<close> applies to
  the format and the remaining arguments.
\<close>

definition WithCode ::
  "(string \<Rightarrow> any list \<Rightarrow> string) \<Rightarrow> ErrCode option \<Rightarrow> error option \<Rightarrow> any list
     \<Rightarrow> StackTrace \<Rightarrow> error" where
  "WithCode sprintf c err formatWithArgs st =
     (let ce = newCodeErrorInternal c [err] st in
      case formatWithArgs of
        [] \<Rightarrow> ce
      | a # args \<Rightarrow>
          (case a of
             AnyOther v \<Rightarrow> ce
           | AnyString format \<Rightarrow>
               if args = [] then WithMessage ce format
               else WithMessage ce (sprintf format args)))"

subsection \<open>Formatting\<close>

text \<open>
  What \<open>fmt\<close> prints for an error. A panic inside a \<open>Format\<close> or \<open>Error\<close> method is
  caught by \<open>fmt\<close>, which prints a fixed text in its place. \<open>%+v\<close> of a stack trace is
  a newline and the frame, for every frame.
\<close>

definition newline :: string where
  "newline = [CHR 0x0A]"

definition fmt_panic :: "char \<Rightarrow> string" where
  "fmt_panic verb =
     ''%!'' @ [verb] @ ''(PANIC=Format method: runtime error: invalid memory address or nil pointer dereference)''"

definition stackText :: "StackTrace \<Rightarrow> string" where
  "stackText st = concat (map (\<lambda>frame. newline @ frame) st)"

definition fmt_s :: "error \<Rightarrow> string" where
  "fmt_s e = (case Error e of Inl p \<Rightarrow> fmt_panic (CHR ''s'') | Inr s \<Rightarrow> s)"

fun fmt_plus_v :: "error \<Rightarrow> string" where
  "fmt_plus_v (Fundamental msg st) = msg @ stackText st"
| "fmt_plus_v (WithStack e st) = fmt_plus_v e @ stackText st"
| "fmt_plus_v (WithMessage e msg) = fmt_plus_v e @ newline @ msg"
| "fmt_plus_v (CodeError None c) =
     (case codeError_Error (None, c) of Inl p \<Rightarrow> fmt_panic (CHR ''v'') | Inr s \<Rightarrow> s)"
| "fmt_plus_v (CodeError (Some cause) c) =
     fmt_plus_v cause @ newline
       @ (case codeError_Error (Some cause, c) of Inl p \<Rightarrow> fmt_panic (CHR ''v'') | Inr s \<Rightarrow> s)"
| "fmt_plus_v (Foreign msg cause) = msg"

section \<open>Package ws: headers\<close>

definition HeaderFieldID :: string where "HeaderFieldID = ''id''"
definition HeaderFieldVersion :: string where "HeaderFieldVersion = ''version''"
definition HeaderFieldAction :: string where "HeaderFieldAction = ''action''"

type_synonym Header = "string \<rightharpoonup> any"

text \<open>\<open>GetHeaderWithType[string]\<close>: the zero value and false for a missing or non-string field.\<close>

definition GetString :: "Header \<Rightarrow> string \<Rightarrow> string \<times> bool" where
  "GetString h field =
     (case h field of
        None \<Rightarrow> ('''', False)
      | Some v \<Rightarrow> (case v of AnyString v1 \<Rightarrow> (v1, True) | AnyOther x \<Rightarrow> ('''', False)))"

definition Version :: "Header \<Rightarrow> string" where
  "Version h = fst (GetString h HeaderFieldVersion)"

definition Action :: "Header \<Rightarrow> string" where
  "Action h = fst (GetString h HeaderFieldAction)"

definition Key :: "Header \<Rightarrow> string" where
  "Key h =
     (let version = Version h; action = Action h
      in if version = '''' then action else version @ ''/'' @ action)"

section \<open>Package ws: message handlers\<close>

text \<open>
  A handler is code of the caller. It runs on \<open>'w\<close>, everything outside the dispatcher
  that it can read or change (its own variables, the session behind the websocket
  context), and on the header it is given a pointer to; it returns both as it leaves them
  and either returns a response and an error or panics. \<open>Panicked\<close> holds what
  \<open>recover()\<close> then returns: the value of the panic, kept as the text \<open>%+v\<close> prints
  for it, or nil (after \<open>panic(nil)\<close> where the Go version or \<open>GODEBUG=panicnil=1\<close>
  leaves it nil).
\<close>

datatype outcome = Returned "any option" "error option" | Panicked "string option"

record 'w MessageHandlerInterface =
  GetHeader :: Header
  Handle :: "'w \<Rightarrow> Header \<Rightarrow> string \<Rightarrow> 'w \<times> Header \<times> outcome"

text \<open>
  \<open>MessageHandler[ReqDataType, RespDataType]\<close>. \<open>UnmarshalData\<close> is \<open>json.Unmarshal\<close>
  into \<open>struct { Data ReqDataType }\<close>, which the request type fixes: the decoded
  \<open>data\<close> field, or the error.
\<close>

record ('req, 'w) MessageHandler =
  Header :: Header
  UnmarshalData :: "string \<Rightarrow> error + 'req"
  HandleFunc :: "'w \<Rightarrow> Header \<Rightarrow> 'req \<Rightarrow> 'w \<times> Header \<times> outcome"

definition MessageHandler_GetHeader :: "('req, 'w) MessageHandler \<Rightarrow> Header" where
  "MessageHandler_GetHeader mh = Header mh"

definition MessageHandler_Handle ::
  "('req, 'w) MessageHandler \<Rightarrow> 'w \<Rightarrow> Header \<Rightarrow> string \<Rightarrow> 'w \<times> Header \<times> outcome" where
  "MessageHandler_Handle mh wsCtx header msg =
     (case UnmarshalData mh msg of
        Inl err \<Rightarrow> (wsCtx, header, Returned None (Some err))
      | Inr reqData \<Rightarrow> HandleFunc mh wsCtx header reqData)"

text \<open>A \<open>*MessageHandler\<close> as the \<open>MessageHandlerInterface\<close> the registry stores.\<close>

definition as_interface :: "('req, 'w) MessageHandler \<Rightarrow> 'w MessageHandlerInterface" where
  "as_interface mh =
     \<lparr>GetHeader = MessageHandler_GetHeader mh, Handle = MessageHandler_Handle mh\<rparr>"

section \<open>Package ws: the dispatcher\<close>

text \<open>
  \<open>HandlerDetailsType\<close> is an \<open>int\<close>; the four named levels are 0 to 3.
\<close>

definition HandlerDetailsNone :: go_int where "HandlerDetailsNone = 0"
definition HandlerDetailsNormal :: go_int where "HandlerDetailsNormal = 1"
definition HandlerDetailsWithError :: go_int where "HandlerDetailsWithError = 2"
definition HandlerDetailsFull :: go_int where "HandlerDetailsFull = 3"

text \<open>
  The fields of \<open>defaultHandler\<close> that dispatch reads. \<open>fnContextErrorf\<close>, the caller's
  logging sink, receives the formatted line. The classifier \<open>fnGetErrCode\<close> and the sink
  are functions that return: both are called outside the \<open>recover\<close> of
  \<open>handleMessage\<close>, and a panic of theirs is not part of the model.
\<close>

record 'w defaultHandler =
  fnGetErrCode :: "(error \<Rightarrow> ErrCode option) option"
  fnContextErrorf :: "(string \<Rightarrow> 'w \<Rightarrow> 'w) option"
  detailsType :: go_int
  messageHandlers :: "string \<rightharpoonup> 'w MessageHandlerInterface"

definition NewServer :: "('w defaultHandler \<Rightarrow> 'w defaultHandler) list \<Rightarrow> 'w defaultHandler" where
  "NewServer opts =
     fold (\<lambda>opt h. opt h) opts
       \<lparr>fnGetErrCode = None, fnContextErrorf = None, detailsType = 0,
        messageHandlers = Map.empty\<rparr>"

definition WithGetErrCode ::
  "(error \<Rightarrow> ErrCode option) option \<Rightarrow> 'w defaultHandler \<Rightarrow> 'w defaultHandler" where
  "WithGetErrCode fn h = h\<lparr>fnGetErrCode := fn\<rparr>"

definition WithContextErrorf ::
  "(string \<Rightarrow> 'w \<Rightarrow> 'w) option \<Rightarrow> 'w defaultHandler \<Rightarrow> 'w defaultHandler" where
  "WithContextErrorf fn h = h\<lparr>fnContextErrorf := fn\<rparr>"

definition WithDetailsType :: "go_int \<Rightarrow> 'w defaultHandler \<Rightarrow> 'w defaultHandler" where
  "WithDetailsType dt h = h\<lparr>detailsType := dt\<rparr>"

definition RegisterMessageHandler ::
  "'w defaultHandler \<Rightarrow> 'w MessageHandlerInterface \<Rightarrow> 'w defaultHandler" where
  "RegisterMessageHandler h mh =
     (let header = GetHeader mh
      in h\<lparr>messageHandlers := (messageHandlers h)(Key header \<mapsto> mh)\<rparr>)"

text \<open>
  The response envelope, \<open>map[string]interface{}\<close> in the source: the keys \<open>header\<close>,
  \<open>code\<close>, \<open>message\<close> and \<open>data\<close> are always set, \<open>details\<close> only sometimes.
\<close>

record resp =
  resp_header :: Header
  resp_code :: go_int
  resp_message :: string
  resp_data :: "any option"
  resp_details :: "string option"

text \<open>
  What the session is given to write: the bytes \<open>json.Marshal\<close> made of an envelope,
  kept as the envelope they encode, or no bytes at all.
\<close>

datatype wire = Encoded resp | NoBytes

text \<open>
  What dispatch uses and the sources at hand do not define:
  \<^item> \<open>Sprintf\<close>: \<open>fmt.Sprintf\<close>;
  \<^item> \<open>callers\<close>: the stack trace that \<open>github.com/pkg/errors\<close> captures when reached
    from the given line of \<open>handleMessage\<close>;
  \<^item> \<open>UnmarshalHeader\<close>: \<open>json.Unmarshal\<close> into \<open>struct { Header Header }\<close>: the header
    it leaves in the struct, and its error;
  \<^item> \<open>Marshal\<close>: the error of \<open>json.Marshal\<close> on an envelope, if any;
  \<^item> \<open>Write\<close>: the error of the session's \<open>Write\<close>, if any;
  \<^item> \<open>ErrParam\<close>: the package's bad-parameter error, declared in a file that is not
    among the sources.
\<close>

record env =
  Sprintf :: "string \<Rightarrow> any list \<Rightarrow> string"
  callers :: "nat \<Rightarrow> StackTrace"
  UnmarshalHeader :: "string \<Rightarrow> Header \<times> error option"
  Marshal :: "resp \<Rightarrow> error option"
  Write :: "wire \<Rightarrow> error option"
  ErrParam :: error

definition getDetails :: "'w defaultHandler \<Rightarrow> codeError \<Rightarrow> go_panic + string" where
  "getDetails h e =
     (if detailsType h = HandlerDetailsNone then Inr ''''
      else if detailsType h = HandlerDetailsNormal then codeError_Error e
      else if detailsType h = HandlerDetailsWithError then
        (case Unwrap (CodeError (fst e) (snd e)) of
           Some internalError \<Rightarrow>
             (case codeError_Error e of
                Inl p \<Rightarrow> Inl p
              | Inr s \<Rightarrow> (case Error internalError of
                           Inl p \<Rightarrow> Inl p
                         | Inr t \<Rightarrow> Inr (s @ '':'' @ t)))
         | None \<Rightarrow> codeError_Error e)
      else if detailsType h = HandlerDetailsFull then
        Inr (fmt_plus_v (CodeError (fst e) (snd e)))
      else Inr '''')"

definition getResp ::
  "env \<Rightarrow> 'w defaultHandler \<Rightarrow> globals \<Rightarrow> StackTrace \<Rightarrow> Header \<Rightarrow> any option \<Rightarrow> error option
     \<Rightarrow> go_panic + (resp \<times> globals)" where
  "getResp ev h g st header respData err =
     (let resp = \<lparr>resp_header = header, resp_code = 0, resp_message = ''Success'',
                  resp_data = respData, resp_details = None\<rparr>
      in case err of
           None \<Rightarrow> Inr (resp, g)
         | Some err0 \<Rightarrow>
             (let (e, g') =
                (case AsCodeError (Some err0) of
                   Some ce \<Rightarrow> (Some ce, g)
                 | None \<Rightarrow>
                     (let (c, g1) =
                        TakeCodePriority
                          [\<lambda>g. (case fnGetErrCode h of None \<Rightarrow> None | Some fn \<Rightarrow> fn err0, g),
                           \<lambda>g. (let (c, g') =
                                       NewErrCode g CCInternalServer 0 0 ''ErrInternalServer''
                                 in (Some c, g'))]
                          g;
                          err1 = WithCode (Sprintf ev) c (Some err0) [] st
                      in (AsCodeError (Some err1), g1)))
              in case e of
                   None \<Rightarrow> Inl NilPointerDereference
                 | Some ce \<Rightarrow>
                     (case GetCode (snd ce) of
                        Inl p \<Rightarrow> Inl p
                      | Inr c \<Rightarrow>
                          (case GetMessage (snd ce) of
                             Inl p \<Rightarrow> Inl p
                           | Inr m \<Rightarrow>
                               (case getDetails h ce of
                                  Inl p \<Rightarrow> Inl p
                                | Inr details \<Rightarrow>
                                    Inr (resp\<lparr>resp_code := c, resp_message := m,
                                           resp_details :=
                                             (if details \<noteq> '''' then Some details else None)\<rparr>,
                                         g'))))))"

definition errorf :: "'w defaultHandler \<Rightarrow> string \<Rightarrow> 'w \<Rightarrow> 'w" where
  "errorf h line w = (case fnContextErrorf h of None \<Rightarrow> w | Some fn \<Rightarrow> fn line w)"

text \<open>
  The closure \<open>fn\<close> of \<open>handleMessage\<close>, with its deferred \<open>recover\<close>: the world and the
  header as the handler left them, the response data and the error. After a panic the
  named results are still nil, and the error is set only when \<open>recover()\<close> is not nil.
\<close>

definition handleMessage_fn ::
  "env \<Rightarrow> 'w defaultHandler \<Rightarrow> 'w \<Rightarrow> string \<Rightarrow> 'w \<times> Header \<times> any option \<times> error option" where
  "handleMessage_fn ev h w msg =
     (case UnmarshalHeader ev msg of
        (header, Some err) \<Rightarrow>
          (w, header, None,
           Some (WithMessage (ErrParam ev) (''unmarshal failed, '' @ fmt_s err)))
      | (header, None) \<Rightarrow>
          (case messageHandlers h (Key header) of
             None \<Rightarrow>
               (w, header, None,
                Some (WithMessage (ErrParam ev) (''unknown header msg type '' @ Key header)))
           | Some mh \<Rightarrow>
               (case Handle mh w header msg of
                  (w', header', Returned respData err) \<Rightarrow> (w', header', respData, err)
                | (w', header', Panicked r) \<Rightarrow>
                    (case r of
                       None \<Rightarrow> (w', header', None, None)
                     | Some v \<Rightarrow>
                         (w', header', None,
                          Some (Fundamental (''panic: '' @ v) (callers ev 213)))))))"

text \<open>
  The result of one dispatch that did not end in an uncaught panic: the world, the
  package variables, and what was handed to the session's \<open>Write\<close>, in order.
\<close>

record 'w dispatched =
  world :: 'w
  globs :: globals
  written :: "wire list"

text \<open>
  The last statement of \<open>handleMessage\<close>: the one \<open>Write\<close> to the session, and the
  line for the logging sink when it fails.
\<close>

definition send ::
  "env \<Rightarrow> 'w defaultHandler \<Rightarrow> Header \<Rightarrow> wire \<Rightarrow> 'w \<Rightarrow> globals \<Rightarrow> 'w dispatched" where
  "send ev h header respBytes w g =
     (case Write ev respBytes of
        None \<Rightarrow> \<lparr>world = w, globs = g, written = [respBytes]\<rparr>
      | Some err \<Rightarrow>
          \<lparr>world = errorf h (''[ws] '' @ Key header @ '' send message failed, '' @ fmt_s err) w,
           globs = g, written = [respBytes]\<rparr>)"

definition handleMessage ::
  "env \<Rightarrow> 'w defaultHandler \<Rightarrow> globals \<Rightarrow> 'w \<Rightarrow> string \<Rightarrow> go_panic + 'w dispatched" where
  "handleMessage ev h g w msg =
     (case handleMessage_fn ev h w msg of
        (w1, header, respData, err) \<Rightarrow>
          (case getResp ev h g (callers ev 232) header respData err of
             Inl p \<Rightarrow> Inl p
           | Inr (resp, g1) \<Rightarrow>
               (case Marshal ev resp of
                  None \<Rightarrow> Inr (send ev h header (Encoded resp) w1 g1)
                | Some err1 \<Rightarrow>
                    (case getResp ev h g1 (callers ev 236) header None (Some err1) of
                       Inl p \<Rightarrow> Inl p
                     | Inr (resp2, g2) \<Rightarrow>
                         (case Marshal ev resp2 of
                            None \<Rightarrow> Inr (send ev h header (Encoded resp2) w1 g2)
                          | Some err2 \<Rightarrow>
                              Inr (send ev h header NoBytes
                                     (errorf h
                                        (''[ws] '' @ Key header
                                           @ '' marshal response failed, '' @ fmt_s err2)
                                        w1)
                                     g2))))))"

section \<open>Observations used to state the properties\<close>

text \<open>
  The stack traces held on an error's chain of \<open>Unwrap\<close>, outermost first: the traces
  that \<open>hasStack\<close> looks for.
\<close>

fun traces :: "error \<Rightarrow> StackTrace list" where
  "traces (Fundamental msg st) = [st]"
| "traces (WithStack e st) = st # traces e"
| "traces (WithMessage e msg) = traces e"
| "traces (CodeError None c) = []"
| "traces (CodeError (Some cause) c) = traces cause"
| "traces (Foreign msg None) = []"
| "traces (Foreign msg (Some cause)) = traces cause"

definition traces_of :: "error option \<Rightarrow> StackTrace list" where
  "traces_of err = (case err of None \<Rightarrow> [] | Some e \<Rightarrow> traces e)"

text \<open>
  What the caller's classifier answers for an error, as the first of the two functions
  handed to \<open>TakeCodePriority\<close> in \<open>getResp\<close> computes it: nil when there is no
  classifier or the classifier returns nil.
\<close>

definition classified :: "'w defaultHandler \<Rightarrow> error \<Rightarrow> ErrCode option" where
  "classified h err = (case fnGetErrCode h of None \<Rightarrow> None | Some fn \<Rightarrow> fn err)"

text \<open>
  The stack traces that \<open>%+v\<close> prints for an error: those of the \<open>pkg/errors\<close>
  values, which print their own trace and hand \<open>%+v\<close> on to what they wrap, and of the
  cause of a code error. An error of another package prints only its text.
\<close>

fun printed_traces :: "error \<Rightarrow> StackTrace list" where
  "printed_traces (Fundamental msg st) = [st]"
| "printed_traces (WithStack e st) = st # printed_traces e"
| "printed_traces (WithMessage e msg) = printed_traces e"
| "printed_traces (CodeError None c) = []"
| "printed_traces (CodeError (Some cause) c) = printed_traces cause"
| "printed_traces (Foreign msg cause) = []"

section \<open>The example program\<close>

text \<open>
  The server of the package's example: one handler for version \<open>v1\<close>, action \<open>echo\<close>,
  that counts its calls in the variable \<open>a\<close> (the world here), sets a header field and
  answers with the request text and the count.
\<close>

definition example_header :: Header where
  "example_header =
     [HeaderFieldVersion \<mapsto> AnyString ''v1'', HeaderFieldAction \<mapsto> AnyString ''echo'']"

definition example_HandleFunc :: "nat \<Rightarrow> Header \<Rightarrow> string \<Rightarrow> nat \<times> Header \<times> outcome" where
  "example_HandleFunc a header reqData =
     (Suc a, header(''A'' \<mapsto> AnyString ''aa''),
      Returned (Some (AnyOther (reqData @ itoa_nat (Suc a)))) None)"

text \<open>A handler under the same header that counts its call and then panics.\<close>

definition panicking_HandleFunc :: "nat \<Rightarrow> Header \<Rightarrow> string \<Rightarrow> nat \<times> Header \<times> outcome" where
  "panicking_HandleFunc a header reqData = (Suc a, header, Panicked (Some ''boom''))"

text \<open>
  Three inbound messages, and what \<open>json.Unmarshal\<close> makes of them: a well-formed
  request to \<open>v1/echo\<close>, a request to \<open>v1/echo\<close> whose \<open>data\<close> is a number where the
  handler's request type is a struct, and a request for the action \<open>missing\<close>.
\<close>

definition msg_echo :: string where
  \<open>msg_echo = ''{"header":{"version":"v1","action":"echo"},"data":{"msgReq":"hi"}}''\<close>

definition msg_bad_data :: string where
  \<open>msg_bad_data = ''{"header":{"version":"v1","action":"echo"},"data":5}''\<close>

definition msg_missing :: string where
  \<open>msg_missing = ''{"header":{"action":"missing"},"data":{}}''\<close>

definition example_UnmarshalHeader :: "string \<Rightarrow> Header \<times> error option" where
  "example_UnmarshalHeader msg =
     (if msg = msg_echo \<or> msg = msg_bad_data then (example_header, None)
      else if msg = msg_missing then ([HeaderFieldAction \<mapsto> AnyString ''missing''], None)
      else (Map.empty, Some (Foreign ''unexpected end of JSON input'' None)))"

definition example_UnmarshalData :: "string \<Rightarrow> error + string" where
  "example_UnmarshalData msg =
     (if msg = msg_echo then Inr ''hi''
      else Inl (Foreign
        ''json: cannot unmarshal number into Go struct field .data of type ws_test.MyReqData''
        None))"

definition example_handler :: "(string, nat) MessageHandler" where
  "example_handler =
     \<lparr>Header = example_header, UnmarshalData = example_UnmarshalData,
      HandleFunc = example_HandleFunc\<rparr>"

definition panicking_handler :: "(string, nat) MessageHandler" where
  "panicking_handler =
     \<lparr>Header = example_header, UnmarshalData = example_UnmarshalData,
      HandleFunc = panicking_HandleFunc\<rparr>"

text \<open>
  Modelled from the spec: the code of \<open>ErrParam\<close>, the package's bad-parameter error,
  whose declaration is not among the sources. The spec calls it the bad-parameter code, so
  it is taken to be of the category \<open>CCBadRequest\<close> and made when the package is
  initialised.
\<close>

definition ErrParam_code :: ErrCode where
  "ErrParam_code = fst (NewErrCode init_globals CCBadRequest 0 0 ''ErrParam'')"

text \<open>
  Modelled from the spec: the error \<open>ErrParam\<close> itself, made from that code by
  \<open>WithCode\<close> with no cause.
\<close>

definition example_ErrParam :: error where
  "example_ErrParam =
     WithCode (\<lambda>format args. format) (Some ErrParam_code) None [] [''ws.init'']"

definition example_globals :: globals where
  "example_globals = snd (NewErrCode init_globals CCBadRequest 0 0 ''ErrParam'')"

definition example_env :: env where
  "example_env =
     \<lparr>Sprintf = (\<lambda>format args. format),
      callers = (\<lambda>line. [''ws.(*defaultHandler).handleMessage'']),
      UnmarshalHeader = example_UnmarshalHeader,
      Marshal = (\<lambda>resp. None),
      Write = (\<lambda>respBytes. None),
      ErrParam = example_ErrParam\<rparr>"

text \<open>A classifier that answers every error with a handle whose packed code is 0.\<close>

definition zero_code :: ErrCode where
  "zero_code = fst (NewErrCode example_globals 0 0 0 ''OK'')"

definition zero_classifier :: "error \<Rightarrow> ErrCode option" where
  "zero_classifier err = Some zero_code"

text \<open>
  The example's server (its handler, full details), the same server with the panicking
  handler and the default options, and that one with the zero classifier.
\<close>

definition example_server :: "nat defaultHandler" where
  "example_server =
     RegisterMessageHandler (NewServer [WithDetailsType HandlerDetailsFull])
       (as_interface example_handler)"

definition panicking_server :: "nat defaultHandler" where
  "panicking_server = RegisterMessageHandler (NewServer []) (as_interface panicking_handler)"

definition zero_classifier_server :: "nat defaultHandler" where
  "zero_classifier_server =
     RegisterMessageHandler (NewServer [WithGetErrCode (Some zero_classifier)])
       (as_interface panicking_handler)"

text \<open>A message cut off in the middle, on which \<open>json.Unmarshal\<close> fails.\<close>

definition msg_truncated :: string where
  \<open>msg_truncated = ''{"header":{"version":"v1","action":"echo"},"data":''\<close>

text \<open>
  An error of \<open>pkg/errors\<close> with its stack trace, as \<open>errors.New\<close> makes it in a
  handler, and the same error wrapped by \<open>fmt.Errorf\<close> with \<open>%w\<close>.
\<close>

definition traced_error :: error where
  "traced_error = Fundamental ''db down'' [''main.query'']"

definition wrapped_traced_error :: error where
  "wrapped_traced_error = Foreign ''query failed: db down'' (Some traced_error)"

text \<open>
  A handler under the same header that counts its call and then calls \<open>panic(nil)\<close>, run
  where \<open>recover()\<close> returns nil for it, and its server with the default options.
\<close>

definition nil_panicking_HandleFunc :: "nat \<Rightarrow> Header \<Rightarrow> string \<Rightarrow> nat \<times> Header \<times> outcome" where
  "nil_panicking_HandleFunc a header reqData = (Suc a, header, Panicked None)"

definition nil_panicking_handler :: "(string, nat) MessageHandler" where
  "nil_panicking_handler =
     \<lparr>Header = example_header, UnmarshalData = example_UnmarshalData,
      HandleFunc = nil_panicking_HandleFunc\<rparr>"

definition nil_panicking_server :: "nat defaultHandler" where
  "nil_panicking_server =
     RegisterMessageHandler (NewServer []) (as_interface nil_panicking_handler)"

text \<open>
  A handler that counts its call, stores a channel in the header and then panics; its
  server; and the environment in which \<open>json.Marshal\<close> rejects, as it does, every envelope
  whose header holds that channel.
\<close>

definition poisoning_HandleFunc :: "nat \<Rightarrow> Header \<Rightarrow> string \<Rightarrow> nat \<times> Header \<times> outcome" where
  "poisoning_HandleFunc a header reqData =
     (Suc a, header(''ch'' \<mapsto> AnyOther ''chan int''), Panicked (Some ''boom''))"

definition poisoning_handler :: "(string, nat) MessageHandler" where
  "poisoning_handler =
     \<lparr>Header = example_header, UnmarshalData = example_UnmarshalData,
      HandleFunc = poisoning_HandleFunc\<rparr>"

definition poisoning_server :: "nat defaultHandler" where
  "poisoning_server = RegisterMessageHandler (NewServer []) (as_interface poisoning_handler)"

definition rejecting_Marshal :: "resp \<Rightarrow> error option" where
  "rejecting_Marshal rsp =
     (case resp_header rsp ''ch'' of
        None \<Rightarrow> None
      | Some v \<Rightarrow> Some (Foreign ''json: unsupported type: chan int'' None))"

definition rejecting_env :: env where
  "rejecting_env = example_env\<lparr>Marshal := rejecting_Marshal\<rparr>"

section \<open>The default combiner\<close>

lemma sint_word_of_int_64:
  "- (2 ^ 63) \<le> k \<Longrightarrow> k < 2 ^ 63 \<Longrightarrow> sint (word_of_int k :: go_int) = k"
  by (simp add: sint_sbintrunc' signed_take_bit_int_eq_self)

lemma go_quo_nonneg:
  fixes a b :: go_int
  assumes "0 \<le> sint a" "0 < sint b"
  shows "go_quo a b = word_of_int (sint a div sint b)"
  using assms by (simp add: go_quo_def signed_divide_int_def sgn_if)

lemma go_rem_nonneg:
  fixes a b :: go_int
  assumes "0 \<le> sint a" "0 < sint b"
  shows "go_rem a b = word_of_int (sint a mod sint b)"
  using assms by (simp add: go_rem_def signed_modulo_int_def sgn_if)

lemma div_mod_add_small:
  fixes a m r :: int
  assumes "0 \<le> r" "r < m"
  shows "(a * m + r) div m = a" and "(a * m + r) mod m = r"
  using assms by (simp_all add: div_pos_pos_trivial mod_pos_pos_trivial)

lemma codeCombiner323_roundtrip:
  fixes c p s :: go_int
  assumes "0 \<le>s c" "0 \<le>s p" "p <s 100" "0 \<le>s s" "s <s 1000"
    and fits: "sint c * 100000 + sint p * 1000 + sint s < 2 ^ 63"
  shows "codeCombiner323_Separate (codeCombiner323_Combine c p s) = (c, p, s)"
proof -
  let ?n = "sint c * 100000 + sint p * 1000 + sint s"
  let ?k = "codeCombiner323_Combine c p s"
  have c0: "0 \<le> sint c" and p0: "0 \<le> sint p" and p1: "sint p < 100"
    and s0: "0 \<le> sint s" and s1: "sint s < 1000"
    using assms by (simp_all add: word_sle_eq word_sless_alt)
  have n0: "0 \<le> ?n" using c0 p0 s0 by simp
  have "?k = word_of_int ?n"
    unfolding codeCombiner323_Combine_def by simp
  moreover have "sint (word_of_int ?n :: go_int) = ?n"
    by (rule sint_word_of_int_64) (use n0 fits in simp_all)
  ultimately have sn: "sint ?k = ?n" by simp
  have d1: "?n div 100000 = sint c"
    using div_mod_add_small(1) [of "sint p * 1000 + sint s" 100000 "sint c"] p0 p1 s0 s1
    by (simp add: add.assoc)
  have d2: "?n div 1000 = sint c * 100 + sint p"
    using div_mod_add_small(1) [of "sint s" 1000 "sint c * 100 + sint p"] s0 s1
    by (simp add: algebra_simps)
  have d3: "?n mod 1000 = sint s"
    using div_mod_add_small(2) [of "sint s" 1000 "sint c * 100 + sint p"] s0 s1
    by (simp add: algebra_simps)
  have d4: "(sint c * 100 + sint p) mod 100 = sint p"
    using div_mod_add_small(2) [of "sint p" 100 "sint c"] p0 p1 by simp
  have k: "0 \<le> sint ?k" using sn n0 by simp
  have q1: "go_quo ?k 100000 = c"
    using go_quo_nonneg [OF k, of 100000] by (simp add: sn d1)
  have "go_quo ?k 1000 = word_of_int (sint ?k div 1000)"
    using go_quo_nonneg [OF k, of 1000] by simp
  then have e2: "go_quo ?k 1000 = word_of_int (sint c * 100 + sint p)"
    by (simp only: sn d2)
  have "sint (word_of_int (sint c * 100 + sint p) :: go_int) = sint c * 100 + sint p"
    by (rule sint_word_of_int_64) (use c0 p0 s0 fits in simp_all)
  then have q2: "sint (go_quo ?k 1000) = sint c * 100 + sint p"
    by (simp only: e2)
  have k2: "0 \<le> sint (go_quo ?k 1000)" using q2 c0 p0 by simp
  have "go_rem (go_quo ?k 1000) 100 = word_of_int (sint (go_quo ?k 1000) mod 100)"
    using go_rem_nonneg [OF k2, of 100] by simp
  then have "go_rem (go_quo ?k 1000) 100 = word_of_int (sint p)"
    by (simp only: q2 d4)
  then have q3: "go_rem (go_quo ?k 1000) 100 = p" by simp
  have "go_rem ?k 1000 = word_of_int (sint ?k mod 1000)"
    using go_rem_nonneg [OF k, of 1000] by simp
  then have "go_rem ?k 1000 = word_of_int (sint s)"
    by (simp only: sn d3)
  then have q4: "go_rem ?k 1000 = s" by simp
  show ?thesis by (simp add: codeCombiner323_Separate_def q1 q3 q4)
qed

section \<open>Evaluation rules\<close>

lemma itoa_nat_small: "n < 10 \<Longrightarrow> itoa_nat n = [digit n]"
  by (simp add: itoa_nat.simps)

lemma itoa_nat_large: "\<not> n < 10 \<Longrightarrow> itoa_nat n = itoa_nat (n div 10) @ [digit (n mod 10)]"
  by (subst itoa_nat.simps) simp

lemma fmt_d_examples:
  "fmt_d 40000000 = ''40000000''" "fmt_d 50000000 = ''50000000''"
  by (simp_all add: fmt_d_def itoa_nat_small itoa_nat_large digit_def)

lemma hasStack_Some [simp]:
  "hasStack (Some (Fundamental msg st)) = True"
  "hasStack (Some (WithStack e st)) = True"
  "hasStack (Some (WithMessage e msg)) = hasStack (Some e)"
  "hasStack (Some (CodeError cause c)) = hasStack cause"
  "hasStack (Some (Foreign msg cause)) = hasStack cause"
  by simp_all

lemma AsCodeError_Some [simp]:
  "AsCodeError (Some (Fundamental msg st)) = None"
  "AsCodeError (Some (WithStack e st)) = AsCodeError (Some e)"
  "AsCodeError (Some (WithMessage e msg)) = AsCodeError (Some e)"
  "AsCodeError (Some (CodeError cause c)) = Some (cause, c)"
  "AsCodeError (Some (Foreign msg cause)) = AsCodeError cause"
  by simp_all

declare hasStack.simps(2) [simp del]

declare AsCodeError.simps(2) [simp del]

section \<open>Stack traces and \<open>WithCode\<close>\<close>

lemma hasStack_traces: "hasStack (Some e) \<longleftrightarrow> traces e \<noteq> []"
  by (induction e rule: traces.induct) (simp_all add: hasStack.simps(1))

lemma hasStack_traces_of: "hasStack err \<longleftrightarrow> traces_of err \<noteq> []"
  by (cases err) (simp_all add: traces_of_def hasStack_traces)

lemma traces_newCodeErrorInternal:
  "traces (newCodeErrorInternal c [err] st) = (if hasStack err then traces_of err else [st])"
  by (cases err) (auto simp: newCodeErrorInternal_def Let_def traces_of_def hasStack_traces)

lemma WithCode_cases:
  "WithCode sprintf c err args st = newCodeErrorInternal c [err] st
   \<or> (\<exists>m. WithCode sprintf c err args st = WithMessage (newCodeErrorInternal c [err] st) m)"
  by (auto simp: WithCode_def Let_def split: list.splits any.splits)

lemma traces_WithCode:
  "traces (WithCode sprintf c err args st) = traces (newCodeErrorInternal c [err] st)"
  using WithCode_cases [of sprintf c err args st] by auto

lemma AsCodeError_newCodeErrorInternal:
  "AsCodeError (Some (newCodeErrorInternal c [err] st)) = Some (err, c)"
  by (simp add: newCodeErrorInternal_def Let_def)

lemma AsCodeError_WithCode:
  "AsCodeError (Some (WithCode sprintf c err args st)) = Some (err, c)"
  using WithCode_cases [of sprintf c err args st]
  by (auto simp: AsCodeError_newCodeErrorInternal)

section \<open>Error texts\<close>

lemma codeError_Error_Some:
  "codeError_Error (cause, Some c) = Inr (fmt_d (code c) @ '': '' @ message c)"
  by (simp add: codeError_Error_def GetCode_def GetMessage_def)

lemma codeError_Error_None: "codeError_Error (cause, None) = Inl NilPointerDereference"
  by (simp add: codeError_Error_def GetCode_def)

lemma Error_total_raw: "AsCodeError (Some e) = None \<Longrightarrow> \<exists>s. Error e = Inr s"
  by (induction e) auto

lemma Error_total_code: "AsCodeError (Some e) = Some (cause, Some c) \<Longrightarrow> \<exists>s. Error e = Inr s"
  by (induction e) (auto simp: codeError_Error_Some)

lemma sublist_in_right: "sublist xs ys \<Longrightarrow> sublist xs (ys @ ss)"
  by (auto simp: sublist_append)

lemma sublist_in_left: "sublist xs ys \<Longrightarrow> sublist xs (ps @ ys)"
  by (auto simp: sublist_append)

lemma fmt_plus_v_prints:
  "st \<in> set (printed_traces e) \<Longrightarrow> sublist (stackText st) (fmt_plus_v e)"
proof (induction e rule: printed_traces.induct)
  case (1 msg st')
  then show ?case by simp
next
  case (2 e st')
  then show ?case by (auto intro: sublist_in_right)
next
  case (3 e msg)
  then show ?case by (auto intro: sublist_in_right)
next
  case (5 cause c)
  then show ?case by (auto intro: sublist_in_right)
qed simp_all

lemma fmt_plus_v_code_nonempty: "fmt_plus_v (CodeError cause (Some c)) \<noteq> ''''"
  by (cases cause) (simp_all add: codeError_Error_Some)

section \<open>Building the response\<close>

lemma getResp_None:
  "getResp ev h g st header respData None
   = Inr (\<lparr>resp_header = header, resp_code = 0, resp_message = ''Success'',
           resp_data = respData, resp_details = None\<rparr>, g)"
  by (simp add: getResp_def)

lemma getResp_code:
  assumes "AsCodeError (Some err0) = Some (cause, Some c)"
  shows "getResp ev h g st header respData (Some err0)
    = (case getDetails h (cause, Some c) of
         Inl p \<Rightarrow> Inl p
       | Inr details \<Rightarrow>
           Inr (\<lparr>resp_header = header, resp_code = code c, resp_message = message c,
                 resp_data = respData,
                 resp_details = (if details \<noteq> '''' then Some details else None)\<rparr>, g))"
  using assms by (simp add: getResp_def GetCode_def GetMessage_def split: sum.splits)

lemma getResp_nil_code:
  assumes "AsCodeError (Some err0) = Some (cause, None)"
  shows "getResp ev h g st header respData (Some err0) = Inl NilPointerDereference"
  using assms by (simp add: getResp_def GetCode_def)

lemma getResp_raw:
  assumes "AsCodeError (Some err0) = None"
  shows "getResp ev h g st header respData (Some err0)
    = (case classified h err0 of
         Some c \<Rightarrow>
           (case getDetails h (Some err0, Some c) of
              Inl p \<Rightarrow> Inl p
            | Inr details \<Rightarrow>
                Inr (\<lparr>resp_header = header, resp_code = code c, resp_message = message c,
                      resp_data = respData,
                      resp_details = (if details \<noteq> '''' then Some details else None)\<rparr>, g))
       | None \<Rightarrow>
           (case getDetails h
                   (Some err0, Some (fst (NewErrCode g CCInternalServer 0 0 ''ErrInternalServer''))) of
              Inl p \<Rightarrow> Inl p
            | Inr details \<Rightarrow>
                Inr (\<lparr>resp_header = header,
                      resp_code = Combine (codeCombiner g) CCInternalServer 0 0,
                      resp_message = ''ErrInternalServer'',
                      resp_data = respData,
                      resp_details = (if details \<noteq> '''' then Some details else None)\<rparr>,
                     snd (NewErrCode g CCInternalServer 0 0 ''ErrInternalServer''))))"
proof (cases "classified h err0")
  case None
  then show ?thesis
    using assms
    by (auto simp: getResp_def classified_def AsCodeError_WithCode GetCode_def GetMessage_def
        NewErrCode_def Let_def split: option.splits sum.splits)
next
  case (Some c)
  then show ?thesis
    using assms
    by (auto simp: getResp_def classified_def AsCodeError_WithCode GetCode_def GetMessage_def
        Let_def split: option.splits sum.splits)
qed

lemma getDetails_total:
  assumes "\<And>ie. cause = Some ie \<Longrightarrow> \<exists>s. Error ie = Inr s"
  shows "\<exists>details. getDetails h (cause, Some c) = Inr details"
proof (cases cause)
  case None
  then show ?thesis by (simp add: getDetails_def codeError_Error_Some)
next
  case (Some ie)
  with assms obtain s where "Error ie = Inr s" by blast
  with Some show ?thesis by (simp add: getDetails_def codeError_Error_Some)
qed

lemma getDetails_no_cause_total: "\<exists>details. getDetails h (None, Some c) = Inr details"
  by (rule getDetails_total) simp

lemma getDetails_None:
  "detailsType h = HandlerDetailsNone \<Longrightarrow> getDetails h e = Inr ''''"
  by (simp add: getDetails_def)

lemma getDetails_Full:
  "detailsType h = HandlerDetailsFull
   \<Longrightarrow> getDetails h (cause, c) = Inr (fmt_plus_v (CodeError cause c))"
  by (simp add: getDetails_def HandlerDetailsFull_def HandlerDetailsNone_def
      HandlerDetailsNormal_def HandlerDetailsWithError_def)

lemma getResp_raw_total:
  assumes "AsCodeError (Some err0) = None"
  shows "\<exists>resp g'. getResp ev h g st header respData (Some err0) = Inr (resp, g')
    \<and> resp_header resp = header \<and> resp_data resp = respData
    \<and> resp_code resp = (case classified h err0 of
                          Some c \<Rightarrow> code c
                        | None \<Rightarrow> Combine (codeCombiner g) CCInternalServer 0 0)
    \<and> resp_message resp = (case classified h err0 of
                             Some c \<Rightarrow> message c
                           | None \<Rightarrow> ''ErrInternalServer'')"
proof -
  have tot: "\<exists>details. getDetails h (Some err0, Some c) = Inr details" for c
    using Error_total_raw [OF assms] by (intro getDetails_total) simp
  show ?thesis
  proof (cases "classified h err0")
    case None
    obtain d where "getDetails h
        (Some err0, Some (fst (NewErrCode g CCInternalServer 0 0 ''ErrInternalServer''))) = Inr d"
      using tot by blast
    with None show ?thesis by (simp add: getResp_raw [OF assms])
  next
    case (Some c)
    obtain d where "getDetails h (Some err0, Some c) = Inr d"
      using tot by blast
    with Some show ?thesis by (simp add: getResp_raw [OF assms])
  qed
qed

lemma internal_server_code: "Combine codeCombiner323 CCInternalServer 0 0 = 50000000"
  by (simp add: codeCombiner323_def codeCombiner323_Combine_def CCInternalServer_def)

lemma getResp_raw_Full:
  assumes raw: "AsCodeError (Some err) = None" and dt: "detailsType h = HandlerDetailsFull"
  shows "\<exists>c g'. getResp ev h g st header respData (Some err)
      = Inr (\<lparr>resp_header = header, resp_code = code c, resp_message = message c,
               resp_data = respData,
               resp_details = Some (fmt_plus_v (CodeError (Some err) (Some c)))\<rparr>, g')"
proof (cases "classified h err")
  case None
  show ?thesis
    by (rule exI [of _ "fst (NewErrCode g CCInternalServer 0 0 ''ErrInternalServer'')"],
        rule exI [of _ "snd (NewErrCode g CCInternalServer 0 0 ''ErrInternalServer'')"])
      (simp add: getResp_raw [OF raw] None getDetails_Full [OF dt] fmt_plus_v_code_nonempty
        NewErrCode_def del: fmt_plus_v.simps)
next
  case (Some c)
  show ?thesis
    by (rule exI [of _ c], rule exI [of _ g])
      (simp add: getResp_raw [OF raw] Some getDetails_Full [OF dt] fmt_plus_v_code_nonempty
        del: fmt_plus_v.simps)
qed

lemma getResp_code_Full:
  assumes "AsCodeError (Some err) = Some (cause, Some c)"
    and dt: "detailsType h = HandlerDetailsFull"
  shows "getResp ev h g st header respData (Some err)
      = Inr (\<lparr>resp_header = header, resp_code = code c, resp_message = message c,
               resp_data = respData,
               resp_details = Some (fmt_plus_v (CodeError cause (Some c)))\<rparr>, g)"
  using assms(1)
  by (simp add: getResp_code getDetails_Full [OF dt] fmt_plus_v_code_nonempty
      del: fmt_plus_v.simps)

lemma AsCodeError_cases:
  obtains (raw) "AsCodeError (Some err) = None"
  | (code) cause c where "AsCodeError (Some err) = Some (cause, Some c)"
  | (nil) cause where "AsCodeError (Some err) = Some (cause, None)"
  by (cases "AsCodeError (Some err)") (auto, metis option.exhaust)

section \<open>Dispatch\<close>

lemma written_send: "written (send ev h header respBytes w g) = [respBytes]"
  by (simp add: send_def split: option.splits)

lemma send_ok:
  "Write ev respBytes = None
   \<Longrightarrow> send ev h header respBytes w g = \<lparr>world = w, globs = g, written = [respBytes]\<rparr>"
  by (simp add: send_def)

lemma handleMessage_marshalled:
  assumes "handleMessage_fn ev h w msg = (w1, header, respData, err)"
    and "getResp ev h g (callers ev 232) header respData err = Inr (resp, g1)"
    and "Marshal ev resp = None"
  shows "handleMessage ev h g w msg = Inr (send ev h header (Encoded resp) w1 g1)"
  using assms by (simp add: handleMessage_def)

lemma handleMessage_rejected_twice:
  assumes fn: "handleMessage_fn ev h w msg = (w1, header, respData, err)"
    and r1: "getResp ev h g (callers ev 232) header respData err = Inr (resp, g1)"
    and m1: "Marshal ev resp = Some err1"
    and r2: "getResp ev h g1 (callers ev 236) header None (Some err1) = Inr (resp2, g2)"
    and m2: "Marshal ev resp2 = Some err2"
  shows "handleMessage ev h g w msg
    = Inr (send ev h header NoBytes
             (errorf h (''[ws] '' @ Key header @ '' marshal response failed, '' @ fmt_s err2) w1)
             g2)"
  using assms by (simp add: handleMessage_def)

lemma handleMessage_returns:
  assumes fn: "handleMessage_fn ev h w msg = (w1, header, respData, err)"
    and r1: "getResp ev h g (callers ev 232) header respData err = Inr (resp, g1)"
    and mar: "\<And>rsp e. Marshal ev rsp = Some e \<Longrightarrow> AsCodeError (Some e) = None"
  shows "\<exists>d. handleMessage ev h g w msg = Inr d \<and> length (written d) = 1"
proof (cases "Marshal ev resp")
  case None
  then show ?thesis
    using handleMessage_marshalled [OF fn r1] by (simp add: written_send)
next
  case (Some err1)
  obtain resp2 g2 where
    r2: "getResp ev h g1 (callers ev 236) header None (Some err1) = Inr (resp2, g2)"
    using getResp_raw_total [OF mar [OF Some]] by blast
  show ?thesis
    using fn r1 Some r2
    by (cases "Marshal ev resp2") (simp_all add: handleMessage_def written_send)
qed

section \<open>The example program, evaluated\<close>

lemma Key_example_header: "Key example_header = ''v1/echo''"
  by (simp add: Key_def Version_def Action_def GetString_def example_header_def
      HeaderFieldVersion_def HeaderFieldAction_def Let_def)

lemma Key_missing: "Key [HeaderFieldAction \<mapsto> AnyString ''missing''] = ''missing''"
  by (simp add: Key_def Version_def Action_def GetString_def
      HeaderFieldVersion_def HeaderFieldAction_def Let_def)

lemma msgs_distinct:
  "msg_echo \<noteq> msg_bad_data" "msg_echo \<noteq> msg_missing" "msg_bad_data \<noteq> msg_missing"
  by (simp_all add: msg_echo_def msg_bad_data_def msg_missing_def)

lemma msg_truncated_distinct:
  "msg_truncated \<noteq> msg_echo" "msg_truncated \<noteq> msg_bad_data" "msg_truncated \<noteq> msg_missing"
  by (simp_all add: msg_truncated_def msg_echo_def msg_bad_data_def msg_missing_def)

lemma example_UnmarshalHeader_simps:
  "example_UnmarshalHeader msg_echo = (example_header, None)"
  "example_UnmarshalHeader msg_bad_data = (example_header, None)"
  "example_UnmarshalHeader msg_missing = ([HeaderFieldAction \<mapsto> AnyString ''missing''], None)"
  using msgs_distinct by (simp_all add: example_UnmarshalHeader_def)

lemma example_UnmarshalHeader_truncated:
  "example_UnmarshalHeader msg_truncated
   = (Map.empty, Some (Foreign ''unexpected end of JSON input'' None))"
  using msg_truncated_distinct by (simp add: example_UnmarshalHeader_def)

lemma example_UnmarshalData_simps:
  "example_UnmarshalData msg_echo = Inr ''hi''"
  "example_UnmarshalData msg_bad_data = Inl (Foreign
     ''json: cannot unmarshal number into Go struct field .data of type ws_test.MyReqData''
     None)"
  using msgs_distinct by (simp_all add: example_UnmarshalData_def)

lemma example_env_simps:
  "UnmarshalHeader example_env = example_UnmarshalHeader"
  "Marshal example_env rsp = None"
  "Write example_env respBytes = None"
  "ErrParam example_env = example_ErrParam"
  "callers example_env line = [''ws.(*defaultHandler).handleMessage'']"
  by (simp_all add: example_env_def)

lemma example_globals_simps:
  "codeCombiner example_globals = codeCombiner323"
  "next_addr example_globals = 1"
  by (simp_all add: example_globals_def NewErrCode_def init_globals_def)

lemma ErrParam_code_simps:
  "code ErrParam_code = 40000000" "message ErrParam_code = ''ErrParam''"
  by (simp_all add: ErrParam_code_def NewErrCode_def init_globals_def codeCombiner323_def
      codeCombiner323_Combine_def CCBadRequest_def)

lemma ErrParam_text: "codeError_Error (cause, Some ErrParam_code) = Inr ''40000000: ErrParam''"
  by (simp add: codeError_Error_Some ErrParam_code_simps fmt_d_examples)

lemma example_ErrParam_eq:
  "example_ErrParam = WithStack (CodeError None (Some ErrParam_code)) [''ws.init'']"
  by (simp add: example_ErrParam_def WithCode_def newCodeErrorInternal_def hasStack.simps(1))

lemma zero_code_simps: "code zero_code = 0" "message zero_code = ''OK''"
  by (simp_all add: zero_code_def NewErrCode_def example_globals_simps
      codeCombiner323_def codeCombiner323_Combine_def)

lemma panicking_server_simps:
  "messageHandlers panicking_server ''v1/echo'' = Some (as_interface panicking_handler)"
  "fnGetErrCode panicking_server = None"
  "detailsType panicking_server = HandlerDetailsNone"
  by (simp_all add: panicking_server_def RegisterMessageHandler_def NewServer_def
      as_interface_def MessageHandler_GetHeader_def panicking_handler_def Key_example_header
      HandlerDetailsNone_def)

lemma zero_classifier_server_simps:
  "messageHandlers zero_classifier_server ''v1/echo'' = Some (as_interface panicking_handler)"
  "fnGetErrCode zero_classifier_server = Some zero_classifier"
  "detailsType zero_classifier_server = HandlerDetailsNone"
  by (simp_all add: zero_classifier_server_def RegisterMessageHandler_def NewServer_def
      as_interface_def MessageHandler_GetHeader_def panicking_handler_def Key_example_header
      HandlerDetailsNone_def WithGetErrCode_def)

lemma example_server_simps:
  "messageHandlers example_server ''v1/echo'' = Some (as_interface example_handler)"
  "messageHandlers example_server ''missing'' = None"
  "fnGetErrCode example_server = None"
  "detailsType example_server = HandlerDetailsFull"
  by (simp_all add: example_server_def RegisterMessageHandler_def NewServer_def
      as_interface_def MessageHandler_GetHeader_def example_handler_def Key_example_header
      WithDetailsType_def)

lemma Handle_panicking:
  "Handle (as_interface panicking_handler) a example_header msg_echo
   = (Suc a, example_header, Panicked (Some ''boom''))"
  by (simp add: as_interface_def MessageHandler_Handle_def panicking_handler_def
      example_UnmarshalData_simps panicking_HandleFunc_def)

lemma Handle_bad_data:
  "Handle (as_interface example_handler) a example_header msg_bad_data
   = (a, example_header, Returned None (Some (Foreign
       ''json: cannot unmarshal number into Go struct field .data of type ws_test.MyReqData''
       None)))"
  by (simp add: as_interface_def MessageHandler_Handle_def example_handler_def
      example_UnmarshalData_simps)

lemma WithCode_traced:
  "WithCode sprintf (Some ErrParam_code) (Some traced_error) [] st
   = CodeError (Some traced_error) (Some ErrParam_code)"
  "WithCode sprintf (Some ErrParam_code) (Some wrapped_traced_error) [] st
   = CodeError (Some wrapped_traced_error) (Some ErrParam_code)"
  "WithCode sprintf (Some ErrParam_code) None [] st
   = WithStack (CodeError None (Some ErrParam_code)) st"
  by (simp_all add: WithCode_def newCodeErrorInternal_def traced_error_def
      wrapped_traced_error_def hasStack.simps(1))

lemma rejecting_env_simps:
  "UnmarshalHeader rejecting_env = example_UnmarshalHeader"
  "Marshal rejecting_env = rejecting_Marshal"
  "Write rejecting_env respBytes = None"
  "callers rejecting_env line = [''ws.(*defaultHandler).handleMessage'']"
  by (simp_all add: rejecting_env_def example_env_def)

lemma rejecting_Marshal_simps:
  "rejecting_Marshal
     \<lparr>resp_header = example_header(''ch'' \<mapsto> AnyOther ''chan int''), resp_code = c,
      resp_message = m, resp_data = d, resp_details = t\<rparr>
   = Some (Foreign ''json: unsupported type: chan int'' None)"
  by (simp add: rejecting_Marshal_def)

lemma rejecting_Marshal_raw:
  "rejecting_Marshal rsp = Some e \<Longrightarrow> AsCodeError (Some e) = None"
  by (auto simp: rejecting_Marshal_def AsCodeError.simps(1) split: option.splits)

lemma poisoning_server_simps:
  "messageHandlers poisoning_server ''v1/echo'' = Some (as_interface poisoning_handler)"
  "fnGetErrCode poisoning_server = None"
  "fnContextErrorf poisoning_server = None"
  "detailsType poisoning_server = HandlerDetailsNone"
  by (simp_all add: poisoning_server_def RegisterMessageHandler_def NewServer_def
      as_interface_def MessageHandler_GetHeader_def poisoning_handler_def Key_example_header
      HandlerDetailsNone_def)

lemma nil_panicking_server_simps:
  "messageHandlers nil_panicking_server ''v1/echo'' = Some (as_interface nil_panicking_handler)"
  "fnGetErrCode nil_panicking_server = None"
  "detailsType nil_panicking_server = HandlerDetailsNone"
  by (simp_all add: nil_panicking_server_def RegisterMessageHandler_def NewServer_def
      as_interface_def MessageHandler_GetHeader_def nil_panicking_handler_def
      Key_example_header HandlerDetailsNone_def)

lemma Handle_poisoning:
  "Handle (as_interface poisoning_handler) a example_header msg_echo
   = (Suc a, example_header(''ch'' \<mapsto> AnyOther ''chan int''), Panicked (Some ''boom''))"
  by (simp add: as_interface_def MessageHandler_Handle_def poisoning_handler_def
      example_UnmarshalData_simps poisoning_HandleFunc_def)

lemma Handle_nil_panicking:
  "Handle (as_interface nil_panicking_handler) a example_header msg_echo
   = (Suc a, example_header, Panicked None)"
  by (simp add: as_interface_def MessageHandler_Handle_def nil_panicking_handler_def
      example_UnmarshalData_simps nil_panicking_HandleFunc_def)

section \<open>The claims\<close>

subsection \<open>C1: packing and unpacking a code\<close>

text \<open>
  C1, as the code has it. For a category code \<open>c \<ge> 0\<close>, a platform code
  \<open>0 \<le> p < 100\<close> and a specific code \<open>0 \<le> s < 1000\<close> whose packed value
  \<open>c * 100000 + p * 1000 + s\<close> fits Go's 64-bit \<open>int\<close> (is at most \<open>2^63 - 1\<close>),
  the default combiner satisfies \<open>Separate (Combine c p s) = (c, p, s)\<close>.
\<close>

theorem Separate_Combine_roundtrip:
  fixes c p s :: go_int
  assumes "0 \<le>s c" and "0 \<le>s p" and "p <s 100" and "0 \<le>s s" and "s <s 1000"
    and "sint c * 100000 + sint p * 1000 + sint s < 2 ^ 63"
  shows "Separate codeCombiner323 (Combine codeCombiner323 c p s) = (c, p, s)"
  using codeCombiner323_roundtrip [OF assms] by (simp add: codeCombiner323_def)

theorem Separate_Combine_roundtrip_witness:
  "(0::go_int) \<le>s 404 \<and> (0::go_int) \<le>s 10 \<and> (10::go_int) <s 100
   \<and> (0::go_int) \<le>s 1 \<and> (1::go_int) <s 1000
   \<and> sint (404::go_int) * 100000 + sint (10::go_int) * 1000 + sint (1::go_int) < 2 ^ 63
   \<and> Combine codeCombiner323 404 10 1 = 40410001
   \<and> Separate codeCombiner323 (Combine codeCombiner323 404 10 1) = (404, 10, 1)"
  using Separate_Combine_roundtrip [of 404 10 1]
  by (simp add: word_sle_eq word_sless_alt codeCombiner323_def codeCombiner323_Combine_def)

text \<open>
  C1 as stated, with no upper bound on the category code, fails where the multiplication
  wraps: \<open>92233720368548 * 100000\<close> exceeds \<open>2^63 - 1\<close>, the packed value is negative
  and \<open>Separate\<close> does not give the three parts back.
\<close>

theorem Separate_Combine_overflow_counterexample:
  "(0::go_int) \<le>s 92233720368548 \<and> (0::go_int) \<le>s 0 \<and> (0::go_int) <s 100
   \<and> (0::go_int) <s 1000
   \<and> sint (Combine codeCombiner323 92233720368548 0 0) = - 9223372036854751616
   \<and> Separate codeCombiner323 (Combine codeCombiner323 92233720368548 0 0)
       \<noteq> (92233720368548, 0, 0)"
  by (simp add: word_sle_eq word_sless_alt codeCombiner323_def codeCombiner323_Combine_def
      codeCombiner323_Separate_def go_quo_def go_rem_def)

subsection \<open>C2: a handler that panics\<close>

text \<open>
  C2, as the code has it. When the header of a message decodes, its routing key has a
  registered handler and that handler panics with a value \<open>r\<close> that \<open>recover()\<close>
  returns as not nil, the closure returns the error \<open>panic: r\<close> of \<open>errors.New\<close>,
  with the world and the header as the handler left them, and \<open>getResp\<close> builds an
  envelope whose code is the one the classifier gives that error or else the
  internal-server code: not 0 when the default combiner is active and the classifier
  returns no handle whose code is 0. When \<open>json.Marshal\<close> accepts that envelope,
  \<open>handleMessage\<close> returns without a panic and what it has written is that envelope
  alone. When the errors of \<open>json.Marshal\<close> are never code errors, \<open>handleMessage\<close>
  returns without a panic after exactly one \<open>Write\<close>, whatever \<open>json.Marshal\<close>
  accepts. (The classifier is a function that returns.)
\<close>

theorem handleMessage_recovers_panic:
  assumes dec: "UnmarshalHeader ev msg = (header, None)"
    and reg: "messageHandlers h (Key header) = Some mh"
    and pan: "Handle mh w header msg = (w', header', Panicked (Some r))"
  shows "\<exists>resp g1.
      handleMessage_fn ev h w msg
        = (w', header', None, Some (Fundamental (''panic: '' @ r) (callers ev 213)))
    \<and> getResp ev h g (callers ev 232) header' None
          (Some (Fundamental (''panic: '' @ r) (callers ev 213))) = Inr (resp, g1)
    \<and> resp_code resp
        = (case classified h (Fundamental (''panic: '' @ r) (callers ev 213)) of
             Some c \<Rightarrow> code c
           | None \<Rightarrow> Combine (codeCombiner g) CCInternalServer 0 0)
    \<and> (codeCombiner g = codeCombiner323
        \<and> (\<forall>c. classified h (Fundamental (''panic: '' @ r) (callers ev 213)) = Some c
               \<longrightarrow> code c \<noteq> 0)
        \<longrightarrow> resp_code resp \<noteq> 0)
    \<and> (Marshal ev resp = None
        \<longrightarrow> (\<exists>d. handleMessage ev h g w msg = Inr d \<and> written d = [Encoded resp]))
    \<and> ((\<forall>rsp e. Marshal ev rsp = Some e \<longrightarrow> AsCodeError (Some e) = None)
        \<longrightarrow> (\<exists>d. handleMessage ev h g w msg = Inr d \<and> length (written d) = 1))"
proof -
  let ?perr = "Fundamental (''panic: '' @ r) (callers ev 213)"
  have fn: "handleMessage_fn ev h w msg = (w', header', None, Some ?perr)"
    by (simp add: handleMessage_fn_def dec reg pan)
  have raw: "AsCodeError (Some ?perr) = None" by simp
  obtain resp g1 where
    r1: "getResp ev h g (callers ev 232) header' None (Some ?perr) = Inr (resp, g1)"
    and cd: "resp_code resp = (case classified h ?perr of
                                 Some c \<Rightarrow> code c
                               | None \<Rightarrow> Combine (codeCombiner g) CCInternalServer 0 0)"
    using getResp_raw_total [OF raw, of ev h g "callers ev 232" header' None] by blast
  have nz: "codeCombiner g = codeCombiner323
      \<and> (\<forall>c. classified h ?perr = Some c \<longrightarrow> code c \<noteq> 0) \<longrightarrow> resp_code resp \<noteq> 0"
    using cd by (auto simp: internal_server_code split: option.splits)
  have wr: "Marshal ev resp = None
      \<longrightarrow> (\<exists>d. handleMessage ev h g w msg = Inr d \<and> written d = [Encoded resp])"
    using handleMessage_marshalled [OF fn r1] by (simp add: written_send)
  have tot: "(\<forall>rsp e. Marshal ev rsp = Some e \<longrightarrow> AsCodeError (Some e) = None)
      \<longrightarrow> (\<exists>d. handleMessage ev h g w msg = Inr d \<and> length (written d) = 1)"
  proof
    assume mar: "\<forall>rsp e. Marshal ev rsp = Some e \<longrightarrow> AsCodeError (Some e) = None"
    show "\<exists>d. handleMessage ev h g w msg = Inr d \<and> length (written d) = 1"
      using handleMessage_returns [OF fn r1] mar by blast
  qed
  show ?thesis
    by (rule exI [of _ resp], rule exI [of _ g1]) (intro conjI fn r1 cd nz wr tot)
qed

theorem handleMessage_recovers_panic_witness:
  "UnmarshalHeader example_env msg_echo = (example_header, None)
   \<and> messageHandlers panicking_server (Key example_header) = Some (as_interface panicking_handler)
   \<and> Handle (as_interface panicking_handler) 0 example_header msg_echo
       = (1, example_header, Panicked (Some ''boom''))
   \<and> classified panicking_server (Fundamental ''panic: boom'' (callers example_env 213)) = None
   \<and> codeCombiner example_globals = codeCombiner323
   \<and> (\<exists>d. handleMessage example_env panicking_server example_globals 0 msg_echo = Inr d
          \<and> world d = 1
          \<and> written d = [Encoded \<lparr>resp_header = example_header, resp_code = 50000000,
                 resp_message = ''ErrInternalServer'', resp_data = None,
                 resp_details = None\<rparr>])
   \<and> UnmarshalHeader rejecting_env msg_echo = (example_header, None)
   \<and> messageHandlers poisoning_server (Key example_header) = Some (as_interface poisoning_handler)
   \<and> Handle (as_interface poisoning_handler) 0 example_header msg_echo
       = (1, example_header(''ch'' \<mapsto> AnyOther ''chan int''), Panicked (Some ''boom''))
   \<and> Marshal rejecting_env
         \<lparr>resp_header = example_header(''ch'' \<mapsto> AnyOther ''chan int''), resp_code = 50000000,
          resp_message = ''ErrInternalServer'', resp_data = None, resp_details = None\<rparr>
       = Some (Foreign ''json: unsupported type: chan int'' None)
   \<and> AsCodeError (Some (Foreign ''json: unsupported type: chan int'' None)) = None
   \<and> (\<exists>d. handleMessage rejecting_env poisoning_server example_globals 0 msg_echo = Inr d
          \<and> world d = 1 \<and> length (written d) = 1 \<and> written d = [NoBytes])"
proof -
  have h1: "UnmarshalHeader example_env msg_echo = (example_header, None)"
    by (simp add: example_env_simps example_UnmarshalHeader_simps)
  have h2: "messageHandlers panicking_server (Key example_header)
      = Some (as_interface panicking_handler)"
    by (simp add: Key_example_header panicking_server_simps)
  have h3: "Handle (as_interface panicking_handler) 0 example_header msg_echo
      = (1, example_header, Panicked (Some ''boom''))"
    by (simp add: Handle_panicking)
  have cl: "classified panicking_server (Fundamental ''panic: boom'' (callers example_env 213))
      = None"
    by (simp add: classified_def panicking_server_simps)
  have cc: "codeCombiner example_globals = codeCombiner323"
    by (simp add: example_globals_simps)
  obtain resp g1 where
    fn: "handleMessage_fn example_env panicking_server 0 msg_echo
          = (1, example_header, None,
             Some (Fundamental (''panic: '' @ ''boom'') (callers example_env 213)))"
    and r: "getResp example_env panicking_server example_globals (callers example_env 232)
          example_header None
          (Some (Fundamental (''panic: '' @ ''boom'') (callers example_env 213))) = Inr (resp, g1)"
    and w: "Marshal example_env resp = None
        \<longrightarrow> (\<exists>d. handleMessage example_env panicking_server example_globals 0 msg_echo = Inr d
              \<and> written d = [Encoded resp])"
    using handleMessage_recovers_panic [OF h1 h2 h3, of example_globals]
    by (elim exE conjE) (rule that; assumption)
  have resp: "resp = \<lparr>resp_header = example_header, resp_code = 50000000,
      resp_message = ''ErrInternalServer'', resp_data = None, resp_details = None\<rparr>"
    using r cl
    by (simp add: getResp_raw getDetails_def panicking_server_simps example_globals_simps
        internal_server_code)
  obtain d where d: "handleMessage example_env panicking_server example_globals 0 msg_echo = Inr d"
    and wd: "written d = [Encoded resp]"
    using w by (auto simp: example_env_simps)
  have "handleMessage example_env panicking_server example_globals 0 msg_echo
      = Inr (send example_env panicking_server example_header (Encoded resp) 1 g1)"
    using handleMessage_marshalled [OF fn r] by (simp add: example_env_simps)
  then have wld: "world d = 1"
    using d by (simp add: send_ok example_env_simps)
  have s1: "\<exists>d. handleMessage example_env panicking_server example_globals 0 msg_echo = Inr d
      \<and> world d = 1
      \<and> written d = [Encoded \<lparr>resp_header = example_header, resp_code = 50000000,
             resp_message = ''ErrInternalServer'', resp_data = None, resp_details = None\<rparr>]"
    using d wd wld resp by simp
  let ?hdr = "example_header(''ch'' \<mapsto> AnyOther ''chan int'')"
  let ?jerr = "Foreign ''json: unsupported type: chan int'' None"
  have k1: "UnmarshalHeader rejecting_env msg_echo = (example_header, None)"
    by (simp add: rejecting_env_simps example_UnmarshalHeader_simps)
  have k2: "messageHandlers poisoning_server (Key example_header)
      = Some (as_interface poisoning_handler)"
    by (simp add: Key_example_header poisoning_server_simps)
  have k3: "Handle (as_interface poisoning_handler) 0 example_header msg_echo
      = (1, ?hdr, Panicked (Some ''boom''))"
    by (simp add: Handle_poisoning)
  have mar: "\<forall>rsp e. Marshal rejecting_env rsp = Some e \<longrightarrow> AsCodeError (Some e) = None"
    by (simp add: rejecting_env_simps rejecting_Marshal_raw)
  have mj: "Marshal rejecting_env
        \<lparr>resp_header = ?hdr, resp_code = 50000000,
         resp_message = ''ErrInternalServer'', resp_data = None, resp_details = None\<rparr>
      = Some ?jerr"
    by (simp add: rejecting_env_simps rejecting_Marshal_simps)
  have rj: "AsCodeError (Some ?jerr) = None"
    by (simp add: AsCodeError.simps(1))
  obtain resp' g1' where
    fn': "handleMessage_fn rejecting_env poisoning_server 0 msg_echo
          = (1, ?hdr, None,
             Some (Fundamental (''panic: '' @ ''boom'') (callers rejecting_env 213)))"
    and r': "getResp rejecting_env poisoning_server example_globals (callers rejecting_env 232)
          ?hdr None
          (Some (Fundamental (''panic: '' @ ''boom'') (callers rejecting_env 213)))
        = Inr (resp', g1')"
    and t': "(\<forall>rsp e. Marshal rejecting_env rsp = Some e \<longrightarrow> AsCodeError (Some e) = None)
        \<longrightarrow> (\<exists>d. handleMessage rejecting_env poisoning_server example_globals 0 msg_echo = Inr d
              \<and> length (written d) = 1)"
    using handleMessage_recovers_panic [OF k1 k2 k3, of example_globals]
    by (elim exE conjE) (rule that; assumption)
  have hd': "resp_header resp' = ?hdr"
    using r' getResp_raw_total [of "Fundamental (''panic: '' @ ''boom'') (callers rejecting_env 213)"
        rejecting_env poisoning_server example_globals "callers rejecting_env 232" ?hdr None]
    by auto
  then have m1: "Marshal rejecting_env resp' = Some ?jerr"
    by (simp add: rejecting_env_simps rejecting_Marshal_def)
  obtain resp2 g2 where
    r2: "getResp rejecting_env poisoning_server g1' (callers rejecting_env 236) ?hdr None
          (Some ?jerr) = Inr (resp2, g2)"
    and hd2: "resp_header resp2 = ?hdr"
    using getResp_raw_total [OF rj, of rejecting_env poisoning_server g1'
        "callers rejecting_env 236" ?hdr None]
    by blast
  have m2: "Marshal rejecting_env resp2 = Some ?jerr"
    using hd2 by (simp add: rejecting_env_simps rejecting_Marshal_def)
  have hm: "handleMessage rejecting_env poisoning_server example_globals 0 msg_echo
      = Inr \<lparr>world = 1, globs = g2, written = [NoBytes]\<rparr>"
    using handleMessage_rejected_twice [OF fn' r' m1 r2 m2]
    by (simp add: send_ok rejecting_env_simps errorf_def poisoning_server_simps)
  obtain d' where "handleMessage rejecting_env poisoning_server example_globals 0 msg_echo = Inr d'"
    and "length (written d') = 1"
    using t' mar by blast
  then have s2: "\<exists>d. handleMessage rejecting_env poisoning_server example_globals 0 msg_echo = Inr d
      \<and> world d = 1 \<and> length (written d) = 1 \<and> written d = [NoBytes]"
    using hm by auto
  show ?thesis
    by (intro conjI h1 h2 h3 cl cc s1 k1 k2 k3 mj rj s2)
qed

text \<open>
  C2 as stated promises an envelope with a non-zero code after every panic. With a
  classifier that answers with a handle whose code is 0, the one envelope written after
  the panic has the code 0. After \<open>panic(nil)\<close>, where \<open>recover()\<close> returns nil, the
  closure returns no error and the envelope written is the one of success, code 0.
\<close>

theorem handleMessage_panic_zero_code_counterexample:
  "Handle (as_interface panicking_handler) 0 example_header msg_echo
     = (1, example_header, Panicked (Some ''boom''))
   \<and> handleMessage example_env zero_classifier_server example_globals 0 msg_echo
     = Inr \<lparr>world = 1, globs = example_globals,
            written = [Encoded \<lparr>resp_header = example_header, resp_code = 0,
               resp_message = ''OK'', resp_data = None, resp_details = None\<rparr>]\<rparr>
   \<and> Handle (as_interface nil_panicking_handler) 0 example_header msg_echo
     = (1, example_header, Panicked None)
   \<and> handleMessage example_env nil_panicking_server example_globals 0 msg_echo
     = Inr \<lparr>world = 1, globs = example_globals,
            written = [Encoded \<lparr>resp_header = example_header, resp_code = 0,
               resp_message = ''Success'', resp_data = None, resp_details = None\<rparr>]\<rparr>"
proof -
  have fn: "handleMessage_fn example_env zero_classifier_server 0 msg_echo
      = (1, example_header, None,
         Some (Fundamental ''panic: boom'' [''ws.(*defaultHandler).handleMessage'']))"
    by (simp add: handleMessage_fn_def example_env_simps example_UnmarshalHeader_simps
        Key_example_header zero_classifier_server_simps Handle_panicking)
  have cl: "classified zero_classifier_server
      (Fundamental ''panic: boom'' [''ws.(*defaultHandler).handleMessage'']) = Some zero_code"
    by (simp add: classified_def zero_classifier_server_simps zero_classifier_def)
  have r: "getResp example_env zero_classifier_server example_globals
      (callers example_env 232) example_header None
      (Some (Fundamental ''panic: boom'' [''ws.(*defaultHandler).handleMessage'']))
    = Inr (\<lparr>resp_header = example_header, resp_code = 0, resp_message = ''OK'',
             resp_data = None, resp_details = None\<rparr>, example_globals)"
    by (simp add: getResp_raw cl getDetails_def zero_classifier_server_simps zero_code_simps)
  have z: "handleMessage example_env zero_classifier_server example_globals 0 msg_echo
     = Inr \<lparr>world = 1, globs = example_globals,
            written = [Encoded \<lparr>resp_header = example_header, resp_code = 0,
               resp_message = ''OK'', resp_data = None, resp_details = None\<rparr>]\<rparr>"
    using handleMessage_marshalled [OF fn r] by (simp add: example_env_simps send_ok)
  have fn0: "handleMessage_fn example_env nil_panicking_server 0 msg_echo
      = (1, example_header, None, None)"
    by (simp add: handleMessage_fn_def example_env_simps example_UnmarshalHeader_simps
        Key_example_header nil_panicking_server_simps Handle_nil_panicking)
  have r0: "getResp example_env nil_panicking_server example_globals
      (callers example_env 232) example_header None None
    = Inr (\<lparr>resp_header = example_header, resp_code = 0, resp_message = ''Success'',
             resp_data = None, resp_details = None\<rparr>, example_globals)"
    by (simp add: getResp_None)
  have n: "handleMessage example_env nil_panicking_server example_globals 0 msg_echo
     = Inr \<lparr>world = 1, globs = example_globals,
            written = [Encoded \<lparr>resp_header = example_header, resp_code = 0,
               resp_message = ''Success'', resp_data = None, resp_details = None\<rparr>]\<rparr>"
    using handleMessage_marshalled [OF fn0 r0] by (simp add: example_env_simps send_ok)
  show ?thesis
    by (intro conjI z n) (simp_all add: Handle_panicking Handle_nil_panicking)
qed

subsection \<open>C3: no handler for the routing key\<close>

text \<open>
  C3, as the code has it. When the header of a message decodes and its routing key has
  no registered handler, and \<open>ErrParam\<close> is a code error without a cause whose handle
  is \<open>c\<close>: no handler runs (the closure returns the world as it was, whatever the
  registry holds); the error of the closure is \<open>ErrParam\<close> under the message
  \<open>unknown header msg type\<close> and the key, and its \<open>Error()\<close> text contains the key;
  the envelope carries the code and the registered message of \<open>c\<close>, the bad-parameter
  code, and no data; and when the envelope is serialised and written, dispatch ends with the
  world unchanged and that one envelope written.
\<close>

theorem handleMessage_unknown_route:
  assumes dec: "UnmarshalHeader ev msg = (header, None)"
    and unreg: "messageHandlers h (Key header) = None"
    and par: "AsCodeError (Some (ErrParam ev)) = Some (None, Some c)"
  shows "\<exists>line resp.
      handleMessage_fn ev h w msg
        = (w, header, None,
           Some (WithMessage (ErrParam ev) (''unknown header msg type '' @ Key header)))
    \<and> Error (WithMessage (ErrParam ev) (''unknown header msg type '' @ Key header)) = Inr line
    \<and> sublist (Key header) line
    \<and> getResp ev h g (callers ev 232) header None
          (Some (WithMessage (ErrParam ev) (''unknown header msg type '' @ Key header)))
        = Inr (resp, g)
    \<and> resp_header resp = header \<and> resp_code resp = code c \<and> resp_message resp = message c
    \<and> resp_data resp = None
    \<and> (Marshal ev resp = None \<and> Write ev (Encoded resp) = None
        \<longrightarrow> handleMessage ev h g w msg
            = Inr \<lparr>world = w, globs = g, written = [Encoded resp]\<rparr>)"
proof -
  let ?err = "WithMessage (ErrParam ev) (''unknown header msg type '' @ Key header)"
  have fn: "handleMessage_fn ev h w msg = (w, header, None, Some ?err)"
    by (simp add: handleMessage_fn_def dec unreg)
  obtain s where s: "Error (ErrParam ev) = Inr s"
    using Error_total_code [OF par] by blast
  have line: "Error ?err = Inr (''unknown header msg type '' @ Key header @ '': '' @ s)"
    by (simp add: s)
  have sub: "sublist (Key header) (''unknown header msg type '' @ Key header @ '': '' @ s)"
    by (rule sublist_appendI)
  have as: "AsCodeError (Some ?err) = Some (None, Some c)"
    by (simp add: par)
  obtain details where dt: "getDetails h (None, Some c) = Inr details"
    using getDetails_no_cause_total by blast
  let ?resp = "\<lparr>resp_header = header, resp_code = code c, resp_message = message c,
      resp_data = None, resp_details = (if details \<noteq> '''' then Some details else None)\<rparr>"
  have r: "getResp ev h g (callers ev 232) header None (Some ?err) = Inr (?resp, g)"
    by (subst getResp_code [OF as]) (simp add: dt)
  have hm: "Marshal ev ?resp = None \<and> Write ev (Encoded ?resp) = None
      \<longrightarrow> handleMessage ev h g w msg = Inr \<lparr>world = w, globs = g, written = [Encoded ?resp]\<rparr>"
    using handleMessage_marshalled [OF fn r] by (simp add: send_ok)
  show ?thesis
    by (rule exI [of _ "''unknown header msg type '' @ Key header @ '': '' @ s"],
        rule exI [of _ ?resp])
      (intro conjI fn line sub r hm, simp_all)
qed

theorem handleMessage_unknown_route_witness:
  "UnmarshalHeader example_env msg_missing = ([HeaderFieldAction \<mapsto> AnyString ''missing''], None)
   \<and> Key [HeaderFieldAction \<mapsto> AnyString ''missing''] = ''missing''
   \<and> messageHandlers example_server ''missing'' = None
   \<and> AsCodeError (Some (ErrParam example_env)) = Some (None, Some ErrParam_code)
   \<and> code ErrParam_code = 40000000
   \<and> fst (handleMessage_fn example_env example_server (0::nat) msg_missing) = 0
   \<and> Error (WithMessage (ErrParam example_env) ''unknown header msg type missing'')
       = Inr ''unknown header msg type missing: 40000000: ErrParam''
   \<and> (\<exists>d. handleMessage example_env example_server example_globals 0 msg_missing = Inr d
         \<and> world d = 0
         \<and> (\<exists>resp. written d = [Encoded resp] \<and> resp_code resp = 40000000
               \<and> resp_message resp = ''ErrParam''))"
proof -
  have h1: "UnmarshalHeader example_env msg_missing
      = ([HeaderFieldAction \<mapsto> AnyString ''missing''], None)"
    by (simp add: example_env_simps example_UnmarshalHeader_simps)
  have h2: "messageHandlers example_server (Key [HeaderFieldAction \<mapsto> AnyString ''missing''])
      = None"
    by (simp add: Key_missing example_server_simps)
  have h3: "AsCodeError (Some (ErrParam example_env)) = Some (None, Some ErrParam_code)"
    by (simp add: example_env_simps example_ErrParam_eq)
  have e: "Error (WithMessage (ErrParam example_env) ''unknown header msg type missing'')
      = Inr ''unknown header msg type missing: 40000000: ErrParam''"
    by (simp add: example_env_simps example_ErrParam_eq ErrParam_text)
  obtain line resp where
    fn: "handleMessage_fn example_env example_server (0::nat) msg_missing
        = (0, [HeaderFieldAction \<mapsto> AnyString ''missing''], None,
           Some (WithMessage (ErrParam example_env)
                   (''unknown header msg type ''
                      @ Key [HeaderFieldAction \<mapsto> AnyString ''missing''])))"
    and c: "resp_code resp = code ErrParam_code"
    and m: "resp_message resp = message ErrParam_code"
    and d: "Marshal example_env resp = None \<and> Write example_env (Encoded resp) = None
        \<longrightarrow> handleMessage example_env example_server example_globals 0 msg_missing
            = Inr \<lparr>world = 0, globs = example_globals, written = [Encoded resp]\<rparr>"
    using handleMessage_unknown_route [OF h1 h2 h3, of 0 example_globals]
    by (elim exE conjE) (rule that; assumption)
  have d': "handleMessage example_env example_server example_globals 0 msg_missing
      = Inr \<lparr>world = 0, globs = example_globals, written = [Encoded resp]\<rparr>"
    using d by (simp add: example_env_simps)
  show ?thesis
    using c m
    by (simp add: h1 h3 fn d' Key_missing example_server_simps ErrParam_code_simps
        example_env_simps example_ErrParam_eq ErrParam_text example_UnmarshalHeader_simps)
qed

text \<open>
  C3 as stated puts the routing key in the response's message. The message of the
  envelope is the registered message of the code and the details are the text of the inner
  code error, so the key \<open>missing\<close> is in neither, even with full details.
\<close>

theorem handleMessage_unknown_route_counterexample:
  "Key [HeaderFieldAction \<mapsto> AnyString ''missing''] = ''missing''
   \<and> handleMessage example_env example_server example_globals 0 msg_missing
       = Inr \<lparr>world = 0, globs = example_globals,
              written = [Encoded \<lparr>resp_header = [HeaderFieldAction \<mapsto> AnyString ''missing''],
                 resp_code = 40000000, resp_message = ''ErrParam'', resp_data = None,
                 resp_details = Some ''40000000: ErrParam''\<rparr>]\<rparr>
   \<and> \<not> sublist ''missing'' ''ErrParam''
   \<and> \<not> sublist ''missing'' ''40000000: ErrParam''"
proof -
  have fn: "handleMessage_fn example_env example_server (0::nat) msg_missing
      = (0, [HeaderFieldAction \<mapsto> AnyString ''missing''], None,
         Some (WithMessage example_ErrParam ''unknown header msg type missing''))"
    by (simp add: handleMessage_fn_def example_env_simps example_UnmarshalHeader_simps
        Key_missing example_server_simps)
  have as: "AsCodeError (Some (WithMessage example_ErrParam ''unknown header msg type missing''))
      = Some (None, Some ErrParam_code)"
    by (simp add: example_ErrParam_eq)
  have r: "getResp example_env example_server example_globals (callers example_env 232)
      [HeaderFieldAction \<mapsto> AnyString ''missing''] None
      (Some (WithMessage example_ErrParam ''unknown header msg type missing''))
    = Inr (\<lparr>resp_header = [HeaderFieldAction \<mapsto> AnyString ''missing''],
             resp_code = 40000000, resp_message = ''ErrParam'', resp_data = None,
             resp_details = Some ''40000000: ErrParam''\<rparr>, example_globals)"
    by (simp add: getResp_code_Full [OF as] example_server_simps ErrParam_code_simps
        ErrParam_text)
  have n: "\<not> sublist ''missing'' ''ErrParam''" "\<not> sublist ''missing'' ''40000000: ErrParam''"
    by (simp_all add: sublist_Cons_right)
  show ?thesis
    using handleMessage_marshalled [OF fn r] n
    by (simp add: Key_missing example_env_simps send_ok)
qed

subsection \<open>C4: request data that does not decode\<close>

text \<open>
  C4 at the example server, with no classifier. The message \<open>msg_bad_data\<close> reaches the
  handler of \<open>v1/echo\<close>, whose \<open>Handle\<close> returns the error of \<open>json.Unmarshal\<close>
  without calling \<open>HandleFunc\<close> (the call counter stays 0); the envelope written has the
  internal-server code 50000000, not a bad-parameter code. The message \<open>msg_truncated\<close>,
  whose decoding fails one step earlier in \<open>handleMessage\<close>, is answered with the code
  40000000 of \<open>ErrParam\<close>.
\<close>

theorem handleMessage_undecodable_data:
  "Handle (as_interface example_handler) 0 example_header msg_bad_data
     = (0, example_header, Returned None (Some (Foreign
         ''json: cannot unmarshal number into Go struct field .data of type ws_test.MyReqData''
         None)))
   \<and> (\<exists>d resp. handleMessage example_env example_server example_globals 0 msg_bad_data = Inr d
         \<and> world d = 0 \<and> written d = [Encoded resp]
         \<and> resp_code resp = 50000000 \<and> resp_message resp = ''ErrInternalServer'')
   \<and> (\<exists>d resp. handleMessage example_env example_server example_globals 0 msg_truncated = Inr d
         \<and> world d = 0 \<and> written d = [Encoded resp]
         \<and> resp_code resp = 40000000 \<and> resp_message resp = ''ErrParam'')"
proof -
  let ?jerr = "Foreign
    ''json: cannot unmarshal number into Go struct field .data of type ws_test.MyReqData'' None"
  let ?herr = "WithMessage example_ErrParam
    ''unmarshal failed, unexpected end of JSON input''"
  have fn: "handleMessage_fn example_env example_server (0::nat) msg_bad_data
      = (0, example_header, None, Some ?jerr)"
    by (simp add: handleMessage_fn_def example_env_simps example_UnmarshalHeader_simps
        Key_example_header example_server_simps Handle_bad_data)
  have raw: "AsCodeError (Some ?jerr) = None"
    by (simp add: AsCodeError.simps(1))
  obtain resp g' where
    r: "getResp example_env example_server example_globals (callers example_env 232)
          example_header None (Some ?jerr) = Inr (resp, g')"
    and c: "resp_code resp = (case classified example_server ?jerr of
                                Some c \<Rightarrow> code c
                              | None \<Rightarrow> Combine (codeCombiner example_globals) CCInternalServer 0 0)"
    and m: "resp_message resp = (case classified example_server ?jerr of
                                   Some c \<Rightarrow> message c
                                 | None \<Rightarrow> ''ErrInternalServer'')"
    using getResp_raw_total [OF raw, of example_env example_server example_globals
        "callers example_env 232" example_header None]
    by (elim exE conjE) (rule that; assumption)
  have cl: "classified example_server ?jerr = None"
    by (simp add: classified_def example_server_simps)
  have bad: "\<exists>d resp. handleMessage example_env example_server example_globals 0 msg_bad_data
        = Inr d
      \<and> world d = 0 \<and> written d = [Encoded resp]
      \<and> resp_code resp = 50000000 \<and> resp_message resp = ''ErrInternalServer''"
    using handleMessage_marshalled [OF fn r] c m
    by (simp add: cl example_env_simps send_ok example_globals_simps internal_server_code)
  have fn2: "handleMessage_fn example_env example_server (0::nat) msg_truncated
      = (0, Map.empty, None, Some ?herr)"
    by (simp add: handleMessage_fn_def example_env_simps example_UnmarshalHeader_truncated
        fmt_s_def)
  have as: "AsCodeError (Some ?herr) = Some (None, Some ErrParam_code)"
    by (simp add: example_ErrParam_eq)
  have r2: "getResp example_env example_server example_globals (callers example_env 232)
      Map.empty None (Some ?herr)
    = Inr (\<lparr>resp_header = Map.empty, resp_code = 40000000, resp_message = ''ErrParam'',
             resp_data = None, resp_details = Some ''40000000: ErrParam''\<rparr>, example_globals)"
    by (simp add: getResp_code_Full [OF as] example_server_simps ErrParam_code_simps
        ErrParam_text)
  have trunc: "\<exists>d resp. handleMessage example_env example_server example_globals 0 msg_truncated
        = Inr d
      \<and> world d = 0 \<and> written d = [Encoded resp]
      \<and> resp_code resp = 40000000 \<and> resp_message resp = ''ErrParam''"
    using handleMessage_marshalled [OF fn2 r2]
    by (simp add: example_env_simps send_ok)
  show ?thesis
    by (intro conjI bad trunc) (simp add: Handle_bad_data)
qed

subsection \<open>C5: the code of an error that is not a code error\<close>

text \<open>
  C5, as the code has it. For an error with no \<open>CodeError\<close> on its chain, \<open>getResp\<close>
  returns an envelope whose code and message are those of the handle the classifier
  returns for the error, and, when there is no classifier or it returns nil, the
  internal-server code packed by the active combiner (50000000 by the default one) and the
  message \<open>ErrInternalServer\<close>.
\<close>

theorem getResp_classifier_then_default:
  assumes "AsCodeError (Some err) = None"
  shows "\<exists>resp g'. getResp ev h g st header respData (Some err) = Inr (resp, g')
    \<and> resp_code resp = (case classified h err of
                          Some c \<Rightarrow> code c
                        | None \<Rightarrow> Combine (codeCombiner g) CCInternalServer 0 0)
    \<and> resp_message resp = (case classified h err of
                             Some c \<Rightarrow> message c
                           | None \<Rightarrow> ''ErrInternalServer'')
    \<and> Combine codeCombiner323 CCInternalServer 0 0 = 50000000"
  using getResp_raw_total [OF assms, of ev h g st header respData]
  by (auto simp: internal_server_code)

theorem getResp_classifier_then_default_witness:
  "AsCodeError (Some (Foreign ''boom'' None)) = None
   \<and> classified (NewServer [] :: nat defaultHandler) (Foreign ''boom'' None) = None
   \<and> codeCombiner example_globals = codeCombiner323
   \<and> (\<exists>resp g'. getResp example_env (NewServer [] :: nat defaultHandler) example_globals []
          example_header None (Some (Foreign ''boom'' None)) = Inr (resp, g')
        \<and> resp_code resp = 50000000 \<and> resp_message resp = ''ErrInternalServer'')"
proof -
  have a: "AsCodeError (Some (Foreign ''boom'' None)) = None"
    by (simp add: AsCodeError.simps(1))
  have b: "classified (NewServer [] :: nat defaultHandler) (Foreign ''boom'' None) = None"
    by (simp add: classified_def NewServer_def)
  have c: "codeCombiner example_globals = codeCombiner323"
    by (simp add: example_globals_def NewErrCode_def init_globals_def)
  show ?thesis
    using getResp_classifier_then_default [OF a, of example_env
        "NewServer [] :: nat defaultHandler" example_globals "[]" example_header None]
    by (auto simp: a b c)
qed

text \<open>
  C5 as stated concludes that the code is never 0. The classifier's handle is used as it
  is: with a classifier that returns a handle whose code is 0, the envelope of an error has
  the code 0.
\<close>

theorem getResp_zero_classifier_counterexample:
  "AsCodeError (Some (Foreign ''boom'' None)) = None
   \<and> getResp example_env (NewServer [WithGetErrCode (Some zero_classifier)] :: nat defaultHandler)
         example_globals [] example_header None (Some (Foreign ''boom'' None))
       = Inr (\<lparr>resp_header = example_header, resp_code = 0, resp_message = ''OK'',
                resp_data = None, resp_details = None\<rparr>, example_globals)"
proof -
  have a: "AsCodeError (Some (Foreign ''boom'' None)) = None"
    by (simp add: AsCodeError.simps(1))
  have cl: "classified (NewServer [WithGetErrCode (Some zero_classifier)] :: nat defaultHandler)
      (Foreign ''boom'' None) = Some zero_code"
    by (simp add: classified_def NewServer_def WithGetErrCode_def zero_classifier_def)
  have dt: "detailsType (NewServer [WithGetErrCode (Some zero_classifier)] :: nat defaultHandler)
      = HandlerDetailsNone"
    by (simp add: NewServer_def WithGetErrCode_def HandlerDetailsNone_def)
  have z: "code zero_code = 0" "message zero_code = ''OK''"
    by (simp_all add: zero_code_def NewErrCode_def example_globals_def init_globals_def
        codeCombiner323_def codeCombiner323_Combine_def)
  show ?thesis
    by (simp add: a getResp_raw [OF a] cl getDetails_def dt z)
qed

subsection \<open>C6: details and verbosity\<close>

text \<open>
  C6, as the code has it. \<open>getResp\<close> on an error either panics, exactly when the code
  error on the chain has a nil handle, or returns an envelope. With \<open>HandlerDetailsNone\<close>
  the envelope has no details. With \<open>HandlerDetailsFull\<close> the details are \<open>%+v\<close> of the
  code error that \<open>AsCodeError\<close> extracts (or that \<open>getResp\<close> makes around an error that
  is not one), and they contain the text of every stack trace that \<open>%+v\<close> prints for
  that code error: the traces reached from its cause through \<open>pkg/errors\<close> values and
  code errors.
\<close>

theorem getResp_details_verbosity:
  "(detailsType h = HandlerDetailsNone \<longrightarrow>
      (case getResp ev h g st header respData (Some err) of
         Inl p \<Rightarrow> (\<exists>cause. AsCodeError (Some err) = Some (cause, None))
       | Inr (resp, g') \<Rightarrow> resp_details resp = None))
   \<and> (detailsType h = HandlerDetailsFull \<longrightarrow>
      (case getResp ev h g st header respData (Some err) of
         Inl p \<Rightarrow> (\<exists>cause. AsCodeError (Some err) = Some (cause, None))
       | Inr (resp, g') \<Rightarrow>
           (\<exists>cause c.
              (case AsCodeError (Some err) of
                 None \<Rightarrow> cause = Some err
               | Some ce \<Rightarrow> ce = (cause, Some c))
              \<and> resp_code resp = code c
              \<and> resp_details resp = Some (fmt_plus_v (CodeError cause (Some c)))
              \<and> (\<forall>st' \<in> set (printed_traces (CodeError cause (Some c))).
                    sublist (stackText st') (fmt_plus_v (CodeError cause (Some c)))))))"
proof (intro conjI impI)
  assume dt: "detailsType h = HandlerDetailsNone"
  show "case getResp ev h g st header respData (Some err) of
         Inl p \<Rightarrow> (\<exists>cause. AsCodeError (Some err) = Some (cause, None))
       | Inr (resp, g') \<Rightarrow> resp_details resp = None"
  proof (cases err rule: AsCodeError_cases)
    case raw
    then show ?thesis
      by (simp add: getResp_raw getDetails_None [OF dt] split: option.splits)
  next
    case (code cause c)
    then show ?thesis by (simp add: getResp_code getDetails_None [OF dt])
  next
    case (nil cause)
    then show ?thesis by (simp add: getResp_nil_code)
  qed
next
  assume dt: "detailsType h = HandlerDetailsFull"
  have pr: "\<forall>st' \<in> set (printed_traces (CodeError cause (Some c))).
      sublist (stackText st') (fmt_plus_v (CodeError cause (Some c)))" for cause c
    using fmt_plus_v_prints by blast
  show "case getResp ev h g st header respData (Some err) of
         Inl p \<Rightarrow> (\<exists>cause. AsCodeError (Some err) = Some (cause, None))
       | Inr (resp, g') \<Rightarrow>
           (\<exists>cause c.
              (case AsCodeError (Some err) of
                 None \<Rightarrow> cause = Some err
               | Some ce \<Rightarrow> ce = (cause, Some c))
              \<and> resp_code resp = code c
              \<and> resp_details resp = Some (fmt_plus_v (CodeError cause (Some c)))
              \<and> (\<forall>st' \<in> set (printed_traces (CodeError cause (Some c))).
                    sublist (stackText st') (fmt_plus_v (CodeError cause (Some c)))))"
  proof (cases err rule: AsCodeError_cases)
    case raw
    obtain c g' where "getResp ev h g st header respData (Some err)
      = Inr (\<lparr>resp_header = header, resp_code = code c, resp_message = message c,
               resp_data = respData,
               resp_details = Some (fmt_plus_v (CodeError (Some err) (Some c)))\<rparr>, g')"
      using getResp_raw_Full [OF raw dt] by blast
    then show ?thesis
      using pr [of "Some err" c] raw
      by (simp del: fmt_plus_v.simps printed_traces.simps)
        (rule exI [of _ c], simp del: fmt_plus_v.simps printed_traces.simps)
  next
    case (code cause c)
    then show ?thesis
      using pr [of cause c]
      by (simp add: getResp_code_Full [OF code dt] del: fmt_plus_v.simps printed_traces.simps)
  next
    case (nil cause)
    then show ?thesis by (simp add: getResp_nil_code)
  qed
qed

theorem getResp_details_verbosity_witness:
  "detailsType panicking_server = HandlerDetailsNone
   \<and> (\<exists>resp g'. getResp example_env panicking_server example_globals [''main.handle'']
          example_header None
          (Some (WithCode (Sprintf example_env) (Some ErrParam_code) (Some traced_error) []
                   [''main.handle'']))
        = Inr (resp, g') \<and> resp_details resp = None)
   \<and> detailsType example_server = HandlerDetailsFull
   \<and> printed_traces (CodeError (Some traced_error) (Some ErrParam_code)) = [[''main.query'']]
   \<and> (\<exists>resp g'. getResp example_env example_server example_globals [''main.handle'']
          example_header None
          (Some (WithCode (Sprintf example_env) (Some ErrParam_code) (Some traced_error) []
                   [''main.handle'']))
        = Inr (resp, g')
        \<and> resp_details resp
            = Some (''db down'' @ newline @ ''main.query'' @ newline @ ''40000000: ErrParam'')
        \<and> sublist (stackText [''main.query''])
             (''db down'' @ newline @ ''main.query'' @ newline @ ''40000000: ErrParam''))"
proof -
  let ?err = "WithCode (Sprintf example_env) (Some ErrParam_code) (Some traced_error) []
                [''main.handle'']"
  have as: "AsCodeError (Some ?err) = Some (Some traced_error, Some ErrParam_code)"
    by (simp add: WithCode_traced)
  have fm: "fmt_plus_v (CodeError (Some traced_error) (Some ErrParam_code))
      = ''db down'' @ newline @ ''main.query'' @ newline @ ''40000000: ErrParam''"
    by (simp add: traced_error_def stackText_def ErrParam_text)
  have pt: "printed_traces (CodeError (Some traced_error) (Some ErrParam_code))
      = [[''main.query'']]"
    by (simp add: traced_error_def)
  have n: "getResp example_env panicking_server example_globals [''main.handle'']
      example_header None (Some ?err)
    = Inr (\<lparr>resp_header = example_header, resp_code = 40000000, resp_message = ''ErrParam'',
             resp_data = None, resp_details = None\<rparr>, example_globals)"
    by (simp add: getResp_code [OF as] getDetails_None panicking_server_simps
        ErrParam_code_simps)
  have f: "getResp example_env example_server example_globals [''main.handle'']
      example_header None (Some ?err)
    = Inr (\<lparr>resp_header = example_header, resp_code = 40000000, resp_message = ''ErrParam'',
             resp_data = None,
             resp_details = Some (''db down'' @ newline @ ''main.query'' @ newline
                                    @ ''40000000: ErrParam'')\<rparr>, example_globals)"
    by (simp add: getResp_code_Full [OF as] example_server_simps ErrParam_code_simps fm
        del: fmt_plus_v.simps)
  have "\<forall>st' \<in> set (printed_traces (CodeError (Some traced_error) (Some ErrParam_code))).
      sublist (stackText st') (fmt_plus_v (CodeError (Some traced_error) (Some ErrParam_code)))"
    using getResp_details_verbosity [where h = example_server and ev = example_env
        and g = example_globals and st = "[''main.handle'']" and header = example_header
        and respData = None and err = ?err]
    by (auto simp: f as example_server_simps simp del: fmt_plus_v.simps printed_traces.simps)
  then have sub: "sublist (stackText [''main.query''])
      (''db down'' @ newline @ ''main.query'' @ newline @ ''40000000: ErrParam'')"
    by (simp add: pt fm del: fmt_plus_v.simps printed_traces.simps)
  have c1: "\<exists>resp g'. getResp example_env panicking_server example_globals [''main.handle'']
      example_header None (Some ?err) = Inr (resp, g') \<and> resp_details resp = None"
    by (simp add: n)
  have c2: "\<exists>resp g'. getResp example_env example_server example_globals [''main.handle'']
      example_header None (Some ?err) = Inr (resp, g')
      \<and> resp_details resp
          = Some (''db down'' @ newline @ ''main.query'' @ newline @ ''40000000: ErrParam'')
      \<and> sublist (stackText [''main.query''])
           (''db down'' @ newline @ ''main.query'' @ newline @ ''40000000: ErrParam'')"
    using sub by (simp add: f)
  show ?thesis
    by (intro conjI c1 c2 pt) (simp_all add: panicking_server_simps example_server_simps)
qed

text \<open>
  C6 as stated has the stack trace in the details whenever the error carries one. Two
  errors that carry a trace and whose full details have none: the error that \<open>WithCode\<close>
  makes with no cause, whose one trace is held outside the code error; and a code error
  whose cause is an \<open>fmt.Errorf\<close> wrapper around a traced error.
\<close>

theorem getResp_full_drops_trace_counterexample:
  "detailsType example_server = HandlerDetailsFull
   \<and> traces (WithCode (Sprintf example_env) (Some ErrParam_code) None [] [''main.handle''])
       = [[''main.handle'']]
   \<and> getResp example_env example_server example_globals [''main.handle''] example_header None
         (Some (WithCode (Sprintf example_env) (Some ErrParam_code) None [] [''main.handle'']))
       = Inr (\<lparr>resp_header = example_header, resp_code = 40000000, resp_message = ''ErrParam'',
                resp_data = None, resp_details = Some ''40000000: ErrParam''\<rparr>, example_globals)
   \<and> \<not> sublist (stackText [''main.handle'']) ''40000000: ErrParam''
   \<and> hasStack (Some wrapped_traced_error)
   \<and> traces (WithCode (Sprintf example_env) (Some ErrParam_code) (Some wrapped_traced_error) []
         [''main.handle'']) = [[''main.query'']]
   \<and> getResp example_env example_server example_globals [''main.handle''] example_header None
         (Some (WithCode (Sprintf example_env) (Some ErrParam_code) (Some wrapped_traced_error) []
                  [''main.handle'']))
       = Inr (\<lparr>resp_header = example_header, resp_code = 40000000, resp_message = ''ErrParam'',
                resp_data = None,
                resp_details = Some (''query failed: db down'' @ newline @ ''40000000: ErrParam'')\<rparr>,
              example_globals)
   \<and> \<not> sublist (stackText [''main.query''])
         (''query failed: db down'' @ newline @ ''40000000: ErrParam'')"
proof -
  have a1: "AsCodeError (Some (WithCode (Sprintf example_env) (Some ErrParam_code) None [] [''main.handle'']))
      = Some (None, Some ErrParam_code)"
    by (simp add: WithCode_traced)
  have a2: "AsCodeError (Some (WithCode (Sprintf example_env) (Some ErrParam_code)
      (Some wrapped_traced_error) [] [''main.handle'']))
      = Some (Some wrapped_traced_error, Some ErrParam_code)"
    by (simp add: WithCode_traced)
  have f1: "fmt_plus_v (CodeError None (Some ErrParam_code)) = ''40000000: ErrParam''"
    by (simp add: ErrParam_text)
  have f2: "fmt_plus_v (CodeError (Some wrapped_traced_error) (Some ErrParam_code))
      = ''query failed: db down'' @ newline @ ''40000000: ErrParam''"
    by (simp add: wrapped_traced_error_def ErrParam_text)
  have r1: "getResp example_env example_server example_globals [''main.handle''] example_header
      None (Some (WithCode (Sprintf example_env) (Some ErrParam_code) None [] [''main.handle'']))
    = Inr (\<lparr>resp_header = example_header, resp_code = 40000000, resp_message = ''ErrParam'',
             resp_data = None, resp_details = Some ''40000000: ErrParam''\<rparr>, example_globals)"
    by (simp add: getResp_code_Full [OF a1] example_server_simps ErrParam_code_simps f1
        del: fmt_plus_v.simps)
  have r2: "getResp example_env example_server example_globals [''main.handle''] example_header
      None (Some (WithCode (Sprintf example_env) (Some ErrParam_code)
        (Some wrapped_traced_error) [] [''main.handle'']))
    = Inr (\<lparr>resp_header = example_header, resp_code = 40000000, resp_message = ''ErrParam'',
             resp_data = None,
             resp_details = Some (''query failed: db down'' @ newline @ ''40000000: ErrParam'')\<rparr>,
           example_globals)"
    by (simp add: getResp_code_Full [OF a2] example_server_simps ErrParam_code_simps f2
        del: fmt_plus_v.simps)
  have t1: "traces (WithCode (Sprintf example_env) (Some ErrParam_code) None [] [''main.handle''])
      = [[''main.handle'']]"
    by (simp add: WithCode_traced)
  have t2: "traces (WithCode (Sprintf example_env) (Some ErrParam_code)
      (Some wrapped_traced_error) [] [''main.handle'']) = [[''main.query'']]"
    unfolding WithCode_traced by (simp add: wrapped_traced_error_def traced_error_def)
  have h2: "hasStack (Some wrapped_traced_error)"
    by (simp add: wrapped_traced_error_def traced_error_def)
  have n1: "\<not> sublist (stackText [''main.handle'']) ''40000000: ErrParam''"
    by (simp add: stackText_def newline_def sublist_Cons_right)
  have n2: "\<not> sublist (stackText [''main.query''])
      (''query failed: db down'' @ newline @ ''40000000: ErrParam'')"
    by (simp add: stackText_def newline_def sublist_Cons_right)
  show ?thesis
    by (intro conjI r1 r2 t1 t2 h2 n1 n2) (simp add: example_server_simps)
qed

subsection \<open>C7: registering twice under one key\<close>

text \<open>
  C7. When two handlers have headers with the same routing key, registering the first and
  then the second gives the registry that registering only the second gives: a lookup by
  that key returns the second handler, and every other key is as before.
\<close>

theorem RegisterMessageHandler_replaces:
  assumes "Key (GetHeader mh1) = Key (GetHeader mh2)"
  shows "RegisterMessageHandler (RegisterMessageHandler h mh1) mh2 = RegisterMessageHandler h mh2
    \<and> messageHandlers (RegisterMessageHandler (RegisterMessageHandler h mh1) mh2)
          (Key (GetHeader mh1)) = Some mh2
    \<and> (\<forall>k. k \<noteq> Key (GetHeader mh1) \<longrightarrow>
          messageHandlers (RegisterMessageHandler (RegisterMessageHandler h mh1) mh2) k
            = messageHandlers h k)"
  using assms by (simp add: RegisterMessageHandler_def Let_def)

theorem RegisterMessageHandler_replaces_witness:
  "Key (GetHeader (as_interface example_handler))
     = Key (GetHeader (as_interface panicking_handler))
   \<and> messageHandlers
        (RegisterMessageHandler
           (RegisterMessageHandler (NewServer []) (as_interface example_handler))
           (as_interface panicking_handler))
        ''v1/echo''
      = Some (as_interface panicking_handler)
   \<and> Handle (as_interface panicking_handler) (0::nat) example_header msg_echo
      = (1, example_header, Panicked (Some ''boom''))
   \<and> Handle (as_interface example_handler) (0::nat) example_header msg_echo
      \<noteq> (1, example_header, Panicked (Some ''boom''))"
proof -
  have k: "Key (GetHeader (as_interface example_handler))
      = Key (GetHeader (as_interface panicking_handler))"
    by (simp add: as_interface_def MessageHandler_GetHeader_def example_handler_def
        panicking_handler_def)
  have k1: "Key (GetHeader (as_interface example_handler)) = ''v1/echo''"
    by (simp add: as_interface_def MessageHandler_GetHeader_def example_handler_def
        Key_example_header)
  have ex: "Handle (as_interface example_handler) (0::nat) example_header msg_echo
      \<noteq> (1, example_header, Panicked (Some ''boom''))"
    by (simp add: as_interface_def MessageHandler_Handle_def example_handler_def
        example_UnmarshalData_simps example_HandleFunc_def)
  have k2: "Key (GetHeader (as_interface panicking_handler)) = ''v1/echo''"
    using k k1 by simp
  have "messageHandlers
        (RegisterMessageHandler
           (RegisterMessageHandler (NewServer []) (as_interface example_handler))
           (as_interface panicking_handler))
        ''v1/echo''
      = Some (as_interface panicking_handler)"
    using RegisterMessageHandler_replaces [OF k, of "NewServer []", THEN conjunct2,
        THEN conjunct1]
    by (simp only: k1)
  then show ?thesis
    using k ex by (simp add: Handle_panicking)
qed

subsection \<open>C8: one stack trace\<close>

text \<open>
  C8. The code error that \<open>WithCode\<close> makes holds the given cause and handle. When the
  chain of the cause has a stack trace, the result holds the traces of the cause and no
  other; when it has none (or the cause is nil), the result holds exactly the one trace
  captured by \<open>WithCode\<close>.
\<close>

theorem WithCode_single_trace:
  "AsCodeError (Some (WithCode sprintf c cause formatWithArgs st)) = Some (cause, c)
   \<and> traces (WithCode sprintf c cause formatWithArgs st)
       = (if hasStack cause then traces_of cause else [st])
   \<and> (if hasStack cause then traces_of cause \<noteq> [] else traces_of cause = [])"
  by (simp add: AsCodeError_WithCode traces_WithCode traces_newCodeErrorInternal
      hasStack_traces_of)

theorem WithCode_single_trace_witness:
  "hasStack (Some (Fundamental ''db down'' [''main.query'']))
   \<and> traces (WithCode (\<lambda>format args. format) (Some ErrParam_code)
         (Some (Fundamental ''db down'' [''main.query''])) [] [''main.handle''])
       = [[''main.query'']]
   \<and> \<not> hasStack (Some (Foreign ''EOF'' None))
   \<and> traces (WithCode (\<lambda>format args. format) (Some ErrParam_code)
         (Some (Foreign ''EOF'' None)) [] [''main.handle''])
       = [[''main.handle'']]
   \<and> \<not> hasStack None
   \<and> traces (WithCode (\<lambda>format args. format) (Some ErrParam_code) None [] [''main.handle''])
       = [[''main.handle'']]"
  using WithCode_single_trace [of "\<lambda>format args. format" "Some ErrParam_code"
      "Some (Fundamental ''db down'' [''main.query''])" "[]" "[''main.handle'']"]
    WithCode_single_trace [of "\<lambda>format args. format" "Some ErrParam_code"
      "Some (Foreign ''EOF'' None)" "[]" "[''main.handle'']"]
    WithCode_single_trace [of "\<lambda>format args. format" "Some ErrParam_code"
      "None" "[]" "[''main.handle'']"]
  by (simp add: traces_of_def hasStack.simps(1))

subsection \<open>C9: a code is recognised by its handle\<close>

text \<open>
  C9. \<open>IsCodeError\<close> with one code accepts an error made by \<open>WithCode\<close> exactly when
  the code is the very handle the error was made with. Two handles that \<open>NewErrCode\<close>
  makes one after the other from the same category, platform and specific codes and the
  same message have the same packed code and message and are different handles: an error
  made with the first is not recognised as the second, and is recognised as the first.
\<close>

theorem IsCodeError_identity:
  "(IsCodeError (Some (WithCode sprintf c cause formatWithArgs st)) [c'] \<longleftrightarrow> c = c')
   \<and> (let (c1, g1) = NewErrCode g categoryCode platformCode specificCode msg;
           (c2, g2) = NewErrCode g1 categoryCode platformCode specificCode msg
       in code c1 = code c2 \<and> message c1 = message c2 \<and> c1 \<noteq> c2
          \<and> \<not> IsCodeError (Some (WithCode sprintf (Some c1) cause formatWithArgs st)) [Some c2]
          \<and> IsCodeError (Some (WithCode sprintf (Some c1) cause formatWithArgs st)) [Some c1])"
  by (simp add: IsCodeError_def AsCodeError_WithCode IsErrCode_def NewErrCode_def)

subsection \<open>C10: a first argument that is not a string\<close>

text \<open>
  C10. When the first of the extra arguments is not a string, \<open>WithCode\<close> returns what
  it returns with no extra arguments, the result of \<open>newCodeErrorInternal\<close>, which has no
  message layer on top.
\<close>

theorem WithCode_ignores_non_string:
  "WithCode sprintf c err (AnyOther v # args) st = WithCode sprintf c err [] st
   \<and> WithCode sprintf c err (AnyOther v # args) st = newCodeErrorInternal c [err] st
   \<and> (\<forall>e m. WithCode sprintf c err (AnyOther v # args) st \<noteq> WithMessage e m)"
  by (simp add: WithCode_def newCodeErrorInternal_def Let_def)

end
